theory Spec2Isabelle
  imports Complex_Main "HOL-Library.Word"
begin

section \<open>Conversation context (ai-service/src/models/context.py)\<close>

text \<open>
  Python exceptions are values. Only the exception classes that the modelled code can
  raise or test for are listed. \<open>RetryError\<close> is what the retry decorator raises once
  its attempts are used up; \<open>ValidationError\<close> is what pydantic raises when a field or
  a validator rejects a value.
\<close>

datatype error =
    ValueError | KeyError | TypeError | AttributeError | IndexError
  | ConnectionError | TimeoutError | RuntimeError | RetryError | ValidationError

text \<open>
  A message is a Python dict from field names to strings. An embedding is a numpy vector;
  \<open>shape[0]\<close> is its length. A parsed timestamp is a number of seconds together with the
  flag saying whether it carries a time zone: Python refuses to subtract a zone-aware
  from a naive datetime. \<open>datetime.fromisoformat\<close> is a library function and is passed
  to the model as a parameter; it returns \<open>None\<close> where the library raises ValueError.
  \<open>datetime.utcnow()\<close> is passed as the parameter \<open>now\<close>.
\<close>

type_synonym message = "string \<rightharpoonup> string"
type_synonym embedding = "real list"

record datetime =
  seconds :: real
  aware :: bool

definition MAX_SHORT_TERM_MESSAGES :: nat where
  "MAX_SHORT_TERM_MESSAGES = 50"

definition EMBEDDING_DIMENSION :: nat where
  "EMBEDDING_DIMENSION = 1536"

record GroupDynamics =
  participation_metrics :: "string \<rightharpoonup> int"
  response_times :: "string \<rightharpoonup> real list"
  interaction_pairs :: "string \<rightharpoonup> int"
  topic_flow :: "string list"

record Context =
  chat_id :: string
  short_term_memory :: "message list"
  embeddings :: "string \<rightharpoonup> embedding"
  group_dynamics :: GroupDynamics
  last_updated :: real

definition Context_init :: "real \<Rightarrow> string \<Rightarrow> Context" where
  "Context_init now cid =
     \<lparr> chat_id = cid,
       short_term_memory = [],
       embeddings = Map.empty,
       group_dynamics = \<lparr> participation_metrics = Map.empty, response_times = Map.empty,
                          interaction_pairs = Map.empty, topic_flow = [] \<rparr>,
       last_updated = now \<rparr>"

definition required_fields :: "string list" where
  "required_fields = [''message_id'', ''sender_id'', ''content'', ''timestamp'']"

definition has_required_fields :: "message \<Rightarrow> bool" where
  "has_required_fields message = list_all (\<lambda>field. message field \<noteq> None) required_fields"

text \<open>\<open>d[k] = d.get(k, 0) + 1\<close> as the source writes it: insert 0 when absent, then add 1.\<close>

definition increment :: "(string \<rightharpoonup> int) \<Rightarrow> string \<Rightarrow> (string \<rightharpoonup> int)" where
  "increment d k = d(k \<mapsto> (case d k of None \<Rightarrow> 0 | Some c \<Rightarrow> c) + 1)"

definition append_time :: "(string \<rightharpoonup> real list) \<Rightarrow> string \<Rightarrow> real \<Rightarrow> (string \<rightharpoonup> real list)" where
  "append_time d k t = d(k \<mapsto> (case d k of None \<Rightarrow> [] | Some ts \<Rightarrow> ts) @ [t])"

text \<open>
  The block of \<open>add_message\<close> under \<open>if len(self.short_term_memory) > 1\<close>: the response
  time against the previous message and the pair counter. Every statement that can raise
  is a branch; the mutations made before a raise stay in the returned state.
\<close>

definition update_reply_metrics ::
  "(string \<Rightarrow> datetime option) \<Rightarrow> Context \<Rightarrow> string \<Rightarrow> datetime \<Rightarrow> error option \<times> Context" where
  "update_reply_metrics fromisoformat ctx sender_id timestamp =
     (let stm = short_term_memory ctx;
          prev_message = stm ! (length stm - 2)
      in case prev_message ''timestamp'' of
           None \<Rightarrow> (Some KeyError, ctx)
         | Some prev_ts \<Rightarrow>
             (case fromisoformat prev_ts of
                None \<Rightarrow> (Some ValueError, ctx)
              | Some prev_timestamp \<Rightarrow>
                  if aware timestamp \<noteq> aware prev_timestamp then (Some TypeError, ctx)
                  else
                    let response_time = seconds timestamp - seconds prev_timestamp;
                        gd = group_dynamics ctx;
                        gd1 = gd\<lparr>response_times := append_time (response_times gd) sender_id response_time\<rparr>;
                        ctx1 = ctx\<lparr>group_dynamics := gd1\<rparr>
                    in case prev_message ''sender_id'' of
                         None \<Rightarrow> (Some KeyError, ctx1)
                       | Some prev_sender \<Rightarrow>
                           let interaction_key = prev_sender @ ''-'' @ sender_id;
                               gd2 = gd1\<lparr>interaction_pairs := increment (interaction_pairs gd1) interaction_key\<rparr>
                           in (None, ctx1\<lparr>group_dynamics := gd2\<rparr>)))"

text \<open>
  \<open>Context.add_message\<close>. The result pairs the exception raised, if any, with the context
  as the call leaves it: the object is mutated in place, so a raise after the append does
  not undo the append.
\<close>

definition add_message ::
  "(string \<Rightarrow> datetime option) \<Rightarrow> real \<Rightarrow> Context \<Rightarrow> message \<Rightarrow> error option \<times> Context" where
  "add_message fromisoformat now ctx message =
     (if \<not> has_required_fields message then (Some ValueError, ctx)
      else
        let stm1 = short_term_memory ctx @ [message];
            stm2 = (if length stm1 > MAX_SHORT_TERM_MESSAGES then tl stm1 else stm1);
            ctx1 = ctx\<lparr>short_term_memory := stm2\<rparr>
        in case message ''sender_id'' of
             None \<Rightarrow> (Some KeyError, ctx1)
           | Some sender_id \<Rightarrow>
               (case message ''timestamp'' of
                  None \<Rightarrow> (Some KeyError, ctx1)
                | Some ts \<Rightarrow>
                    (case fromisoformat ts of
                       None \<Rightarrow> (Some ValueError, ctx1)
                     | Some timestamp \<Rightarrow>
                         let gd = group_dynamics ctx1;
                             gd1 = gd\<lparr>participation_metrics := increment (participation_metrics gd) sender_id\<rparr>;
                             ctx2 = ctx1\<lparr>group_dynamics := gd1\<rparr>
                         in if length (short_term_memory ctx2) > 1
                            then (case update_reply_metrics fromisoformat ctx2 sender_id timestamp of
                                    (Some e, ctx3) \<Rightarrow> (Some e, ctx3)
                                  | (None, ctx3) \<Rightarrow> (None, ctx3\<lparr>last_updated := now\<rparr>))
                            else (None, ctx2\<lparr>last_updated := now\<rparr>))))"

text \<open>
  The ids of the messages in short-term memory, \<open>{msg['message_id'] for msg in ...}\<close>;
  a message without the key raises KeyError.
\<close>

fun message_ids :: "message list \<Rightarrow> error + string list" where
  "message_ids [] = Inr []"
| "message_ids (m # ms) =
     (case m ''message_id'' of
        None \<Rightarrow> Inl KeyError
      | Some i \<Rightarrow> (case message_ids ms of Inl e \<Rightarrow> Inl e | Inr is \<Rightarrow> Inr (i # is)))"

text \<open>\<open>Context.update_embeddings\<close>: dimension check, store, then prune to the current ids.\<close>

definition update_embeddings ::
  "real \<Rightarrow> Context \<Rightarrow> string \<Rightarrow> embedding \<Rightarrow> error option \<times> Context" where
  "update_embeddings now ctx message_id embedding =
     (if length embedding \<noteq> EMBEDDING_DIMENSION then (Some ValueError, ctx)
      else
        let ctx1 = ctx\<lparr>embeddings := (embeddings ctx)(message_id \<mapsto> embedding), last_updated := now\<rparr>
        in case message_ids (short_term_memory ctx1) of
             Inl e \<Rightarrow> (Some e, ctx1)
           | Inr current_message_ids \<Rightarrow>
               (None, ctx1\<lparr>embeddings := (\<lambda>k. if k \<in> set current_message_ids then embeddings ctx1 k else None)\<rparr>))"

text \<open>
  A caller adding messages one after the other. Each call is given the clock reading it
  sees. A call that raises leaves its partial effect behind and the caller goes on.
\<close>

fun add_messages ::
  "(string \<Rightarrow> datetime option) \<Rightarrow> Context \<Rightarrow> (real \<times> message) list \<Rightarrow> Context" where
  "add_messages fromisoformat ctx [] = ctx"
| "add_messages fromisoformat ctx ((now, m) # rest) =
     add_messages fromisoformat (snd (add_message fromisoformat now ctx m)) rest"

section \<open>Vector store (ai-service/src/context/vector_store.py)\<close>

text \<open>
  The Milvus collection is an external service. Its two calls are parameters of the
  model: \<open>milvus_insert\<close> gives the exception that \<open>insert\<close> or \<open>flush\<close> raised, if any,
  and \<open>milvus_search\<close> returns the hits of \<open>collection.search\<close> for the one query vector,
  or the exception it raised. Logging and the performance counters are left out.

  The module reads the dimension as \<open>Context.EMBEDDING_DIMENSION\<close>. The class \<open>Context\<close>
  has no such attribute: \<open>EMBEDDING_DIMENSION\<close> is a module-level name of
  models/context.py (line 9), and the dataclass declares five fields without defaults
  (lines 24 to 28). The lookup raises AttributeError wherever it is evaluated.
\<close>

record hit =
  hit_message_id :: string
  hit_chat_id :: string
  hit_score :: real

record VectorStore =
  connected :: bool
  milvus_insert :: "string \<Rightarrow> string \<Rightarrow> embedding \<Rightarrow> bool \<Rightarrow> error option"
  milvus_search :: "embedding \<Rightarrow> string \<Rightarrow> nat \<Rightarrow> error + hit list"

definition Context_EMBEDDING_DIMENSION :: "error + nat" where
  "Context_EMBEDDING_DIMENSION = Inl AttributeError"

text \<open>
  \<open>VectorStore.store_embedding\<close>: RuntimeError when not connected or without a
  collection (the field \<open>connected\<close> stands for both). The \<open>try\<close> block comes first,
  then the method: every exception raised inside the block is caught and turned into the
  result \<open>False\<close>. The retry decorator of the method retries MilvusException only, which
  cannot leave the method, so it passes the result and the RuntimeError on.
\<close>

definition store_embedding_try ::
  "VectorStore \<Rightarrow> string \<Rightarrow> string \<Rightarrow> embedding \<Rightarrow> bool \<Rightarrow> error + bool" where
  "store_embedding_try vs message_id cid embedding batch_mode =
     (case Context_EMBEDDING_DIMENSION of
        Inl e \<Rightarrow> Inl e
      | Inr d \<Rightarrow>
          if length embedding \<noteq> d then Inl ValueError
          else (case milvus_insert vs message_id cid embedding batch_mode of
                  Some e \<Rightarrow> Inl e
                | None \<Rightarrow> Inr True))"

definition store_embedding ::
  "VectorStore \<Rightarrow> string \<Rightarrow> string \<Rightarrow> embedding \<Rightarrow> bool \<Rightarrow> error + bool" where
  "store_embedding vs message_id cid embedding batch_mode =
     (if \<not> connected vs then Inl RuntimeError
      else case store_embedding_try vs message_id cid embedding batch_mode of
             Inl e \<Rightarrow> Inr False
           | Inr stored \<Rightarrow> Inr stored)"

text \<open>
  \<open>VectorStore.search_similar\<close>, in the same two parts: the hits whose score reaches the
  threshold, in the order Milvus returned them; the empty list when anything inside the
  \<open>try\<close> block raised.
\<close>

definition search_similar_try ::
  "VectorStore \<Rightarrow> embedding \<Rightarrow> string \<Rightarrow> nat \<Rightarrow> real \<Rightarrow> error + hit list" where
  "search_similar_try vs query_embedding cid limit score_threshold =
     (case Context_EMBEDDING_DIMENSION of
        Inl e \<Rightarrow> Inl e
      | Inr d \<Rightarrow>
          if length query_embedding \<noteq> d then Inl ValueError
          else (case milvus_search vs query_embedding cid limit of
                  Inl e \<Rightarrow> Inl e
                | Inr hits \<Rightarrow> Inr (filter (\<lambda>h. hit_score h \<ge> score_threshold) hits)))"

definition search_similar ::
  "VectorStore \<Rightarrow> embedding \<Rightarrow> string \<Rightarrow> nat \<Rightarrow> real \<Rightarrow> error + hit list" where
  "search_similar vs query_embedding cid limit score_threshold =
     (if \<not> connected vs then Inl RuntimeError
      else case search_similar_try vs query_embedding cid limit score_threshold of
             Inl e \<Rightarrow> Inr []
           | Inr similar_messages \<Rightarrow> Inr similar_messages)"

section \<open>Awaiting and retrying\<close>

text \<open>
  The services are written with \<open>async def\<close> and \<open>await\<close>. Awaiting a coroutine runs it
  to its end, so a call of an \<open>async def\<close> method under \<open>await\<close> is an ordinary call in
  the model. Several places await the result of a method declared with plain \<open>def\<close>.
  Python evaluates the call first, so an exception of the call comes out as it is; the
  value returned is then not awaitable, and \<open>await\<close> raises TypeError.
\<close>

definition await_value :: "error + 'a \<Rightarrow> error + 'a" where
  "await_value r = (case r of Inl e \<Rightarrow> Inl e | Inr v \<Rightarrow> Inl TypeError)"

text \<open>
  A retrying call, as tenacity runs it: the function is called again while the exception
  raised satisfies the predicate and attempts are left; an exception the predicate
  rejects is passed on at once, and after the last attempt \<open>RetryError\<close> is raised. The
  state is the object the method belongs to, so the effects of a failed attempt are seen
  by the next one. The third component of the result counts the attempts. The function
  retried gets the number of the attempt, to read what the outside world does during
  that attempt.
\<close>

fun retry_loop ::
  "nat \<Rightarrow> nat \<Rightarrow> (error \<Rightarrow> bool) \<Rightarrow> (nat \<Rightarrow> 's \<Rightarrow> (error + 'a) \<times> 's) \<Rightarrow> 's
     \<Rightarrow> (error + 'a) \<times> 's \<times> nat" where
  "retry_loop 0 n should_retry f s = (Inl RetryError, s, n)"
| "retry_loop (Suc r) n should_retry f s =
     (case f (Suc n) s of
        (Inr v, s') \<Rightarrow> (Inr v, s', Suc n)
      | (Inl e, s') \<Rightarrow>
          if should_retry e then retry_loop r (Suc n) should_retry f s'
          else (Inl e, s', Suc n))"

text \<open>
  The decorator \<open>retry(stop=stop_after_attempt(n), ...)\<close>. Every use in the repository
  gives \<open>stop\<close>, which is the first argument here; the other keyword arguments are
  listed by name. When the decorator is applied to the function, tenacity constructs
  the retrying object from the keywords, and a keyword that is not a parameter of
  \<open>BaseRetrying.__init__\<close> raises TypeError there. The keyword \<open>retry\<close> gives the
  predicate; without it every exception is retried.
\<close>

datatype retry_argument =
    Wait_exponential real
  | Retry_if_exception_type "error list"
  | Exception_classes "error list"

record Retrying =
  max_attempts :: nat
  retry_predicate :: "error \<Rightarrow> bool"

definition retrying_parameters :: "string list" where
  "retrying_parameters =
     [''sleep'', ''stop'', ''wait'', ''retry'', ''before'', ''after'', ''before_sleep'',
      ''reraise'', ''retry_error_cls'', ''retry_error_callback'']"

definition tenacity_retry :: "nat \<Rightarrow> (string \<times> retry_argument) list \<Rightarrow> error + Retrying" where
  "tenacity_retry stop keywords =
     (if \<not> list_all (\<lambda>k. k \<in> set retrying_parameters) (map fst keywords) then Inl TypeError
      else Inr \<lparr> max_attempts = stop,
                 retry_predicate =
                   (case map_of keywords ''retry'' of
                      Some (Retry_if_exception_type classes) \<Rightarrow> (\<lambda>e. e \<in> set classes)
                    | other \<Rightarrow> (\<lambda>e. True)) \<rparr>)"

definition retry_call ::
  "Retrying \<Rightarrow> (nat \<Rightarrow> 's \<Rightarrow> (error + 'a) \<times> 's) \<Rightarrow> 's \<Rightarrow> (error + 'a) \<times> 's \<times> nat" where
  "retry_call r f s = retry_loop (max_attempts r) 0 (retry_predicate r) f s"

section \<open>Context manager (ai-service/src/context/context_manager.py)\<close>

definition SIMILARITY_THRESHOLD :: real where
  "SIMILARITY_THRESHOLD = 0.7"

definition MAX_RELEVANT_CONTEXTS :: nat where
  "MAX_RELEVANT_CONTEXTS = 5"

definition MAX_RETRIES :: nat where
  "MAX_RETRIES = 3"

definition RETRY_DELAY_SECONDS :: real where
  "RETRY_DELAY_SECONDS = 1"

text \<open>
  What the services outside the manager do during one attempt: the clock and the
  embedding provider (\<open>OpenAIService.generate_embedding\<close>, an \<open>async def\<close> method).
\<close>

record Env =
  env_now :: real
  env_fromisoformat :: "string \<Rightarrow> datetime option"
  env_generate_embedding :: "string \<Rightarrow> error + embedding"

record ContextManager =
  active_contexts :: "string \<rightharpoonup> Context"
  vector_store :: VectorStore

definition get_or_create_context :: "real \<Rightarrow> ContextManager \<Rightarrow> string \<Rightarrow> Context \<times> ContextManager" where
  "get_or_create_context now mgr cid =
     (case active_contexts mgr cid of
        Some ctx \<Rightarrow> (ctx, mgr)
      | None \<Rightarrow> (Context_init now cid,
                 mgr\<lparr>active_contexts := (active_contexts mgr)(cid \<mapsto> Context_init now cid)\<rparr>))"

definition put_context :: "ContextManager \<Rightarrow> string \<Rightarrow> Context \<Rightarrow> ContextManager" where
  "put_context mgr cid ctx = mgr\<lparr>active_contexts := (active_contexts mgr)(cid \<mapsto> ctx)\<rparr>"

text \<open>
  The body of \<open>add_message_to_context\<close> (lines 93 to 122), one attempt. The context
  object lives in the manager's map, so each mutation is written back with
  \<open>put_context\<close> before the next statement can raise. \<open>store_embedding\<close> is declared
  with \<open>def\<close> and awaited (line 107).
\<close>

definition add_message_to_context_once ::
  "Env \<Rightarrow> ContextManager \<Rightarrow> string \<Rightarrow> message \<Rightarrow> bool \<Rightarrow> (error + unit) \<times> ContextManager" where
  "add_message_to_context_once env mgr cid message batch_mode =
     (case get_or_create_context (env_now env) mgr cid of
        (context, mgr1) \<Rightarrow>
          (case add_message (env_fromisoformat env) (env_now env) context message of
             (Some e, context1) \<Rightarrow> (Inl e, put_context mgr1 cid context1)
           | (None, context1) \<Rightarrow>
               let mgr2 = put_context mgr1 cid context1
               in case message ''content'' of
                    None \<Rightarrow> (Inl KeyError, mgr2)
                  | Some content \<Rightarrow>
                      (case env_generate_embedding env content of
                         Inl e \<Rightarrow> (Inl e, mgr2)
                       | Inr embedding \<Rightarrow>
                           (case message ''message_id'' of
                              None \<Rightarrow> (Inl KeyError, mgr2)
                            | Some message_id \<Rightarrow>
                                (case await_value (store_embedding (vector_store mgr2) message_id cid
                                                     embedding batch_mode) of
                                   Inl e \<Rightarrow> (Inl e, mgr2)
                                 | Inr stored \<Rightarrow>
                                     (case update_embeddings (env_now env) context1 message_id embedding of
                                        (Some e, context2) \<Rightarrow> (Inl e, put_context mgr2 cid context2)
                                      | (None, context2) \<Rightarrow> (Inr (), put_context mgr2 cid context2)))))))"

text \<open>
  The \<open>options\<close> argument of \<open>get_relevant_context\<close>: \<open>None\<close>, or a dict that may hold
  \<open>limit\<close> and \<open>threshold\<close>. An entry of the answer is the stored message together
  with the value put under its key \<open>relevance_score\<close>.
\<close>

record options =
  opt_limit :: "nat option"
  opt_threshold :: "real option"

record relevant =
  rel_message :: message
  relevance_score :: real

text \<open>The inner loop over short-term memory: the first message with the id, if any.\<close>

fun find_message :: "message list \<Rightarrow> string \<Rightarrow> error + message option" where
  "find_message [] message_id = Inr None"
| "find_message (msg # rest) message_id =
     (case msg ''message_id'' of
        None \<Rightarrow> Inl KeyError
      | Some i \<Rightarrow> if i = message_id then Inr (Some msg) else find_message rest message_id)"

fun join_messages :: "message list \<Rightarrow> hit list \<Rightarrow> error + relevant list" where
  "join_messages stm [] = Inr []"
| "join_messages stm (similar # rest) =
     (case find_message stm (hit_message_id similar) of
        Inl e \<Rightarrow> Inl e
      | Inr found \<Rightarrow>
          (case join_messages stm rest of
             Inl e \<Rightarrow> Inl e
           | Inr messages \<Rightarrow>
               (case found of
                  None \<Rightarrow> Inr messages
                | Some msg \<Rightarrow> Inr (\<lparr>rel_message = msg, relevance_score = hit_score similar\<rparr> # messages))))"

text \<open>
  The body of \<open>get_relevant_context\<close> (lines 145 to 177), one attempt. The arguments of
  \<open>search_similar\<close> are evaluated before the call, so \<open>options.get\<close> on \<open>None\<close> raises
  AttributeError first. \<open>search_similar\<close> is declared with \<open>def\<close> and awaited (line 151).
\<close>

definition get_relevant_context_once ::
  "Env \<Rightarrow> ContextManager \<Rightarrow> string \<Rightarrow> string \<Rightarrow> options option
     \<Rightarrow> (error + relevant list) \<times> ContextManager" where
  "get_relevant_context_once env mgr cid query opts =
     (case env_generate_embedding env query of
        Inl e \<Rightarrow> (Inl e, mgr)
      | Inr query_embedding \<Rightarrow>
          (case opts of
             None \<Rightarrow> (Inl AttributeError, mgr)
           | Some opt \<Rightarrow>
               let limit = (case opt_limit opt of None \<Rightarrow> MAX_RELEVANT_CONTEXTS | Some l \<Rightarrow> l);
                   threshold = (case opt_threshold opt of None \<Rightarrow> SIMILARITY_THRESHOLD | Some t \<Rightarrow> t)
               in case await_value (search_similar (vector_store mgr) query_embedding cid limit threshold) of
                    Inl e \<Rightarrow> (Inl e, mgr)
                  | Inr similar_messages \<Rightarrow>
                      (case get_or_create_context (env_now env) mgr cid of
                         (context, mgr1) \<Rightarrow>
                           (join_messages (short_term_memory context) similar_messages, mgr1))))"

text \<open>
  The two retry decorators of the class, as the source writes them. The one of
  \<open>add_message_to_context\<close> (lines 74 to 78) passes the exception classes under the
  keyword \<open>retry_if_exception_type\<close>; the one of \<open>get_relevant_context\<close> (lines 124 to
  127) gives \<open>stop\<close> and \<open>wait\<close> only.
\<close>

definition add_message_to_context_decorator :: "error + Retrying" where
  "add_message_to_context_decorator =
     tenacity_retry MAX_RETRIES
       [(''wait'', Wait_exponential RETRY_DELAY_SECONDS),
        (''retry_if_exception_type'', Exception_classes [ConnectionError, TimeoutError])]"

definition get_relevant_context_decorator :: "error + Retrying" where
  "get_relevant_context_decorator =
     tenacity_retry MAX_RETRIES [(''wait'', Wait_exponential RETRY_DELAY_SECONDS)]"

text \<open>
  The class statement runs its body from top to bottom and applies each decorator as
  it goes; an exception there leaves the module without the class. The methods of the
  class can be called once the body has run through.
\<close>

record ContextManager_class =
  add_message_to_context_retrying :: Retrying
  get_relevant_context_retrying :: Retrying

definition ContextManager_class_body :: "error + ContextManager_class" where
  "ContextManager_class_body =
     (case add_message_to_context_decorator of
        Inl e \<Rightarrow> Inl e
      | Inr r1 \<Rightarrow>
          (case get_relevant_context_decorator of
             Inl e \<Rightarrow> Inl e
           | Inr r2 \<Rightarrow>
               Inr \<lparr> add_message_to_context_retrying = r1,
                     get_relevant_context_retrying = r2 \<rparr>))"

text \<open>
  A caller that imports the module and calls a method on a manager in the given state.
  No attempt is made when the class statement raised.
\<close>

definition add_message_to_context ::
  "(nat \<Rightarrow> Env) \<Rightarrow> ContextManager \<Rightarrow> string \<Rightarrow> message \<Rightarrow> bool
     \<Rightarrow> (error + unit) \<times> ContextManager \<times> nat" where
  "add_message_to_context envs mgr cid message batch_mode =
     (case ContextManager_class_body of
        Inl e \<Rightarrow> (Inl e, mgr, 0)
      | Inr cls \<Rightarrow>
          retry_call (add_message_to_context_retrying cls)
            (\<lambda>attempt m. add_message_to_context_once (envs attempt) m cid message batch_mode) mgr)"

definition get_relevant_context ::
  "(nat \<Rightarrow> Env) \<Rightarrow> ContextManager \<Rightarrow> string \<Rightarrow> string \<Rightarrow> options option
     \<Rightarrow> (error + relevant list) \<times> ContextManager \<times> nat" where
  "get_relevant_context envs mgr cid query opts =
     (case ContextManager_class_body of
        Inl e \<Rightarrow> (Inl e, mgr, 0)
      | Inr cls \<Rightarrow>
          retry_call (get_relevant_context_retrying cls)
            (\<lambda>attempt m. get_relevant_context_once (envs attempt) m cid query opts) mgr)"

section \<open>Python values\<close>

text \<open>
  The preference engine passes untyped dicts around and stores JSON in its cache. Its
  values are modelled by one datatype: \<open>None\<close>, booleans, numbers (Python's int and
  float, as reals), strings, lists, and dicts with string keys kept in insertion order.
  \<open>json.dumps\<close> followed by \<open>json.loads\<close> is the identity on these values.
\<close>

datatype pyval =
    PNone | PBool bool | PNum real | PStr string
  | PList "pyval list" | PDict "(string \<times> pyval) list"

type_synonym pydict = "(string \<times> pyval) list"

text \<open>Truth value of an object, as \<open>if x:\<close> and \<open>not x\<close> see it.\<close>

fun truthy :: "pyval \<Rightarrow> bool" where
  "truthy PNone = False"
| "truthy (PBool b) = b"
| "truthy (PNum x) = (x \<noteq> 0)"
| "truthy (PStr s) = (s \<noteq> [])"
| "truthy (PList l) = (l \<noteq> [])"
| "truthy (PDict d) = (d \<noteq> [])"

text \<open>The number a value stands for in arithmetic and comparisons; \<open>None\<close> is a TypeError.\<close>

fun py_num :: "pyval \<Rightarrow> real option" where
  "py_num (PNum x) = Some x"
| "py_num (PBool b) = Some (if b then 1 else 0)"
| "py_num v = None"

text \<open>\<open>d.get(k, default)\<close> and \<open>d[k] = v\<close> on a dict in insertion order.\<close>

definition dict_get :: "pydict \<Rightarrow> string \<Rightarrow> pyval \<Rightarrow> pyval" where
  "dict_get d k dflt = (case map_of d k of None \<Rightarrow> dflt | Some v \<Rightarrow> v)"

fun dict_set :: "pydict \<Rightarrow> string \<Rightarrow> pyval \<Rightarrow> pydict" where
  "dict_set [] k v = [(k, v)]"
| "dict_set ((k', v') # d) k v = (if k' = k then (k, v) # d else (k', v') # dict_set d k v)"

text \<open>
  Python's \<open>==\<close> on these values. Numbers and booleans compare by their number, so
  \<open>True == 1\<close>; lists compare element by element; dicts are equal when they have the
  same keys with equal values, in whatever order the keys were inserted.
\<close>

fun py_eq :: "pyval \<Rightarrow> pyval \<Rightarrow> bool" where
  "py_eq (PList xs) (PList ys) = list_all2 py_eq xs ys"
| "py_eq (PDict d) (PDict e) =
     (set (map fst d) = set (map fst e) \<and>
      list_all (\<lambda>kv. case map_of e (fst kv) of None \<Rightarrow> False | Some w \<Rightarrow> py_eq (snd kv) w) d)"
| "py_eq (PStr s) (PStr t) = (s = t)"
| "py_eq PNone PNone = True"
| "py_eq (PNum x) b = (py_num b = Some x)"
| "py_eq (PBool x) b = (py_num b = Some (if x then 1 else 0))"
| "py_eq a b = False"

section \<open>User identifiers\<close>

text \<open>
  The models declare \<open>user_id: UUID\<close>, the services are annotated in the same way, and
  the callers hand a UUID object on. A UUID is its 128-bit number; \<open>str\<close> writes it as
  32 hexadecimal digits in lower case, in groups of 8, 4, 4, 4 and 12.
\<close>

type_synonym UUID = "128 word"

definition hex_digit :: "nat \<Rightarrow> char" where
  "hex_digit n = ''0123456789abcdef'' ! n"

definition uuid_hex :: "UUID \<Rightarrow> string" where
  "uuid_hex u = map (\<lambda>i. hex_digit (unat (take_bit 4 (drop_bit (4 * (31 - i)) u)))) [0..<32]"

definition uuid_str :: "UUID \<Rightarrow> string" where
  "uuid_str u =
     (let h = uuid_hex u
      in take 8 h @ ''-'' @ take 4 (drop 8 h) @ ''-'' @ take 4 (drop 12 h) @ ''-'' @
         take 4 (drop 16 h) @ ''-'' @ drop 20 h)"

section \<open>Preference model (preference-engine/src/models/preference.py)\<close>

definition PREFERENCE_TYPES :: "string list" where
  "PREFERENCE_TYPES =
     [''chat'', ''ai_agent'', ''ui'', ''notification'', ''language'', ''accessibility'', ''privacy'']"

definition MIN_CONFIDENCE_SCORE :: real where
  "MIN_CONFIDENCE_SCORE = 0.0"

definition MAX_CONFIDENCE_SCORE :: real where
  "MAX_CONFIDENCE_SCORE = 1.0"

record PreferenceHistoryEntry =
  phe_timestamp :: real
  phe_data :: pydict
  phe_confidence_score :: real
  phe_version :: int

record PreferenceModel =
  pm_user_id :: UUID
  pm_preference_type :: string
  preference_data :: pydict
  history :: "PreferenceHistoryEntry list"
  confidence_score :: real
  pm_created_at :: real
  pm_last_updated :: real
  version :: int

text \<open>
  Constructing a history entry runs the field constraints \<open>ge=0, le=1\<close> on the
  confidence and \<open>ge=0\<close> on the version.
\<close>

definition PreferenceHistoryEntry_new ::
  "real \<Rightarrow> pydict \<Rightarrow> real \<Rightarrow> int \<Rightarrow> error + PreferenceHistoryEntry" where
  "PreferenceHistoryEntry_new now d c v =
     (if c < MIN_CONFIDENCE_SCORE \<or> c > MAX_CONFIDENCE_SCORE \<or> v < 0 then Inl ValidationError
      else Inr \<lparr> phe_timestamp = now, phe_data = d, phe_confidence_score = c, phe_version = v \<rparr>)"

text \<open>
  \<open>PreferenceModel(user_id=..., preference_type=...)\<close>, the one form in which the
  repository constructs the model: the validator of \<open>preference_type\<close> runs, the other
  fields take their defaults. The random \<open>preference_id\<close> is left out.
\<close>

definition PreferenceModel_new :: "real \<Rightarrow> UUID \<Rightarrow> string \<Rightarrow> error + PreferenceModel" where
  "PreferenceModel_new now uid ptype =
     (if ptype \<notin> set PREFERENCE_TYPES then Inl ValidationError
      else Inr \<lparr> pm_user_id = uid, pm_preference_type = ptype, preference_data = [],
                 history = [], confidence_score = 0.5, pm_created_at = now,
                 pm_last_updated = now, version = 0 \<rparr>)"

text \<open>
  \<open>PreferenceModel.update_preference\<close>. \<open>MAX_HISTORY_LENGTH\<close> is read from the settings
  (\<open>PREFERENCE_HISTORY_LIMIT\<close>, default 100, validated to lie in 1..1000) and is the first
  parameter. \<open>pop(0)\<close> on an empty list raises IndexError. The method returns \<open>True\<close>;
  the model returns the object as the call leaves it.
\<close>

definition DEFAULT_PREFERENCE_HISTORY_LIMIT :: nat where
  "DEFAULT_PREFERENCE_HISTORY_LIMIT = 100"

definition PreferenceModel_update_preference ::
  "nat \<Rightarrow> real \<Rightarrow> PreferenceModel \<Rightarrow> pydict \<Rightarrow> real option \<Rightarrow> bool \<Rightarrow> error + PreferenceModel" where
  "PreferenceModel_update_preference MAX_HISTORY_LENGTH now self new_data new_confidence force_update =
     (case PreferenceHistoryEntry_new now (preference_data self) (confidence_score self) (version self) of
        Inl e \<Rightarrow> Inl e
      | Inr history_entry \<Rightarrow>
          if length (history self) \<ge> MAX_HISTORY_LENGTH \<and> history self = [] then Inl IndexError
          else
            let h1 = (if length (history self) \<ge> MAX_HISTORY_LENGTH then tl (history self)
                      else history self);
                self1 = self\<lparr> history := h1 @ [history_entry],
                               preference_data := new_data,
                               pm_last_updated := now,
                               version := version self + 1 \<rparr>
            in case new_confidence of
                 None \<Rightarrow> Inr self1
               | Some c \<Rightarrow>
                   Inr (self1\<lparr> confidence_score :=
                                  max MIN_CONFIDENCE_SCORE (min c MAX_CONFIDENCE_SCORE) \<rparr>))"

text \<open>One call of \<open>update_preference\<close>: the clock reading and the three arguments.\<close>

record update_call =
  call_now :: real
  call_data :: pydict
  call_confidence :: "real option"
  call_force :: bool

text \<open>A sequence of calls on one model; the first exception ends the sequence.\<close>

fun update_preferences :: "nat \<Rightarrow> PreferenceModel \<Rightarrow> update_call list \<Rightarrow> error + PreferenceModel" where
  "update_preferences L self [] = Inr self"
| "update_preferences L self (c # cs) =
     (case PreferenceModel_update_preference L (call_now c) self (call_data c) (call_confidence c) (call_force c) of
        Inl e \<Rightarrow> Inl e
      | Inr self' \<Rightarrow> update_preferences L self' cs)"

text \<open>
  The state of the model immediately before each call of the sequence, and the snapshot
  of such a state that a history entry holds.
\<close>

fun states_before :: "nat \<Rightarrow> PreferenceModel \<Rightarrow> update_call list \<Rightarrow> PreferenceModel list" where
  "states_before L self [] = []"
| "states_before L self (c # cs) =
     self # (case PreferenceModel_update_preference L (call_now c) self (call_data c) (call_confidence c) (call_force c) of
               Inl e \<Rightarrow> []
             | Inr self' \<Rightarrow> states_before L self' cs)"

definition snapshot :: "PreferenceModel \<Rightarrow> update_call \<Rightarrow> PreferenceHistoryEntry" where
  "snapshot self c =
     \<lparr> phe_timestamp = call_now c, phe_data = preference_data self,
       phe_confidence_score = confidence_score self, phe_version = version self \<rparr>"

section \<open>User profile (preference-engine/src/models/user_profile.py)\<close>

definition SUPPORTED_PREFERENCE_TYPES :: "string list" where
  "SUPPORTED_PREFERENCE_TYPES = [''content'', ''interaction'', ''time'', ''location'']"

definition min_samples :: int where
  "min_samples = 5"

definition pattern_weight :: real where
  "pattern_weight = 0.3"

definition recency_weight :: real where
  "recency_weight = 0.4"

definition consistency_weight :: real where
  "consistency_weight = 0.3"

record InteractionEntry =
  ie_timestamp :: real
  ie_data :: pydict
  ie_confidence :: real
  ie_context :: pydict

record PatternMetrics =
  last_analysis :: real
  sample_count :: int
  pattern_strength :: real

record UserProfile =
  up_user_id :: UUID
  preferences :: "string \<rightharpoonup> pydict"
  learning_patterns :: "string \<rightharpoonup> pydict"
  interaction_history :: "string \<rightharpoonup> InteractionEntry list"
  up_created_at :: real
  up_last_updated :: real
  confidence_scores :: "string \<rightharpoonup> real"
  pattern_metrics :: "string \<rightharpoonup> PatternMetrics"

text \<open>
  \<open>UserProfile(user_id=..., **data)\<close>. Pydantic takes the fields from the data and the
  defaults, empty dicts, for the rest; \<open>UserProfile_fields\<close> is the object with no data
  given. Then the loop of \<open>__init__\<close> fills the per-type structures of every supported
  type that has no entry in \<open>preferences\<close>. A type for which the data bring
  preferences keeps, in the other fields, what the data bring for it. The services
  construct the profile from the user id alone (\<open>UserProfile_init\<close>).
\<close>

definition init_preference_type :: "real \<Rightarrow> UserProfile \<Rightarrow> string \<Rightarrow> UserProfile" where
  "init_preference_type now self pref_type =
     (if preferences self pref_type \<noteq> None then self
      else self\<lparr>
        preferences := (preferences self)(pref_type \<mapsto> []),
        learning_patterns := (learning_patterns self)(pref_type \<mapsto>
           [(''consistency_score'', PNum 0.0), (''temporal_patterns'', PDict []),
            (''preference_stability'', PNum 0.0)]),
        interaction_history := (interaction_history self)(pref_type \<mapsto> []),
        confidence_scores := (confidence_scores self)(pref_type \<mapsto> 0.0),
        pattern_metrics := (pattern_metrics self)(pref_type \<mapsto>
           \<lparr> last_analysis = now, sample_count = 0, pattern_strength = 0.0 \<rparr>) \<rparr>)"

definition UserProfile_fields :: "real \<Rightarrow> UUID \<Rightarrow> UserProfile" where
  "UserProfile_fields now uid =
     \<lparr> up_user_id = uid, preferences = Map.empty, learning_patterns = Map.empty,
       interaction_history = Map.empty, up_created_at = now, up_last_updated = now,
       confidence_scores = Map.empty, pattern_metrics = Map.empty \<rparr>"

definition UserProfile_new :: "real \<Rightarrow> UserProfile \<Rightarrow> UserProfile" where
  "UserProfile_new now given = foldl (init_preference_type now) given SUPPORTED_PREFERENCE_TYPES"

definition UserProfile_init :: "real \<Rightarrow> UUID \<Rightarrow> UserProfile" where
  "UserProfile_init now uid = UserProfile_new now (UserProfile_fields now uid)"

text \<open>
  \<open>_calculate_pattern_consistency\<close>: the share of the last five entries whose data equal
  the new data under \<open>==\<close>, 0.5 without history. A type without history list raises
  KeyError.
\<close>

definition calculate_pattern_consistency :: "UserProfile \<Rightarrow> string \<Rightarrow> pydict \<Rightarrow> error + real" where
  "calculate_pattern_consistency self preference_type new_data =
     (case interaction_history self preference_type of
        None \<Rightarrow> Inl KeyError
      | Some entries \<Rightarrow>
          if entries = [] then Inr 0.5
          else
            let recent_entries = drop (length entries - 5) entries;
                consistency_count =
                  length (filter (\<lambda>entry. py_eq (PDict (ie_data entry)) (PDict new_data)) recent_entries)
            in Inr (real consistency_count / real (length recent_entries)))"

text \<open>
  \<open>get_preference_history\<close> returns a dict; its entries \<open>history\<close>, \<open>total_entries\<close> and
  \<open>metrics\<close> are the fields of the record. Only the date filter used by the caller in this
  file is modelled (\<open>start_date\<close> given, no end date, no custom filter, no limit).
\<close>

record HistoryResult =
  hr_preference_type :: string
  hr_history :: "InteractionEntry list"
  hr_total_entries :: int
  hr_metrics :: PatternMetrics

definition get_preference_history :: "UserProfile \<Rightarrow> string \<Rightarrow> real \<Rightarrow> error + HistoryResult" where
  "get_preference_history self preference_type start_date =
     (if preference_type \<notin> set SUPPORTED_PREFERENCE_TYPES then Inl ValueError
      else case interaction_history self preference_type of
             None \<Rightarrow> Inl KeyError
           | Some entries \<Rightarrow>
               let h = filter (\<lambda>entry. ie_timestamp entry \<ge> start_date) entries
               in case pattern_metrics self preference_type of
                    None \<Rightarrow> Inl KeyError
                  | Some m \<Rightarrow>
                      Inr \<lparr> hr_preference_type = preference_type, hr_history = h,
                            hr_total_entries = int (length h), hr_metrics = m \<rparr>)"

text \<open>
  \<open>analyze_learning_patterns\<close> hands the dict returned by \<open>get_preference_history\<close>, not
  its \<open>history\<close> entry, to \<open>_analyze_temporal_patterns\<close>. The loop there iterates over the
  keys of the dict; the first key is the string \<open>preference_type\<close>, and indexing a string
  with \<open>"timestamp"\<close> raises TypeError. The call therefore ends with TypeError before
  it changes the profile. Thirty days are 2592000 seconds.
\<close>

definition analyze_learning_patterns :: "real \<Rightarrow> UserProfile \<Rightarrow> string \<Rightarrow> error option \<times> UserProfile" where
  "analyze_learning_patterns now self preference_type =
     (if preference_type \<notin> set SUPPORTED_PREFERENCE_TYPES then (Some ValueError, self)
      else case get_preference_history self preference_type (now - 2592000) of
             Inl e \<Rightarrow> (Some e, self)
           | Inr history_dict \<Rightarrow> (Some TypeError, self))"

text \<open>
  The part of \<open>UserProfile.update_preference\<close> that follows the construction of the
  preference model (source lines 105 to 147). \<open>PreferenceModel.update_preference\<close> is
  declared with \<open>def\<close> and awaited (line 118): the call updates the model, a local
  object, and the \<open>await\<close> raises TypeError on the \<open>True\<close> it returned. The lines
  after it are kept as the source has them. The value returned on success would be the
  weighted confidence together with the pattern score, the two computed entries of the
  result dict.
\<close>

definition update_preference_body ::
  "nat \<Rightarrow> real \<Rightarrow> UserProfile \<Rightarrow> PreferenceModel \<Rightarrow> string \<Rightarrow> pydict \<Rightarrow> real \<Rightarrow> pydict option
     \<Rightarrow> (error + real \<times> real) \<times> UserProfile" where
  "update_preference_body L now self pref_model preference_type pref_data confidence context_data =
     (case calculate_pattern_consistency self preference_type pref_data of
        Inl e \<Rightarrow> (Inl e, self)
      | Inr pattern_score \<Rightarrow>
          let weighted_confidence = confidence * pattern_weight + pattern_score * consistency_weight
          in case await_value (PreferenceModel_update_preference L now pref_model pref_data
                                 (Some weighted_confidence) False) of
               Inl e \<Rightarrow> (Inl e, self)
             | Inr pref_model' \<Rightarrow>
                 let interaction_entry =
                       \<lparr> ie_timestamp = now, ie_data = pref_data, ie_confidence = weighted_confidence,
                         ie_context = (case context_data of None \<Rightarrow> [] | Some c \<Rightarrow> c) \<rparr>
                 in case interaction_history self preference_type of
                      None \<Rightarrow> (Inl KeyError, self)
                    | Some entries \<Rightarrow>
                        let self1 = self\<lparr>interaction_history :=
                                      (interaction_history self)(preference_type \<mapsto> entries @ [interaction_entry])\<rparr>
                        in case learning_patterns self1 preference_type of
                             None \<Rightarrow> (Inl KeyError, self1)
                           | Some lp \<Rightarrow>
                               let self2 = self1\<lparr>
                                     learning_patterns := (learning_patterns self1)(preference_type \<mapsto>
                                        dict_set lp ''consistency_score'' (PNum pattern_score)),
                                     confidence_scores := (confidence_scores self1)(preference_type \<mapsto> weighted_confidence),
                                     up_last_updated := now \<rparr>
                               in case pattern_metrics self2 preference_type of
                                    None \<Rightarrow> (Inl KeyError, self2)
                                  | Some m \<Rightarrow>
                                      if sample_count m \<ge> min_samples
                                      then (case analyze_learning_patterns now self2 preference_type of
                                              (Some e, self3) \<Rightarrow> (Inl e, self3)
                                            | (None, self3) \<Rightarrow> (Inr (weighted_confidence, pattern_score), self3))
                                      else (Inr (weighted_confidence, pattern_score), self2))"

text \<open>
  \<open>UserProfile.update_preference\<close>: the type is checked against the supported types of
  the settings, then a preference model is constructed for it, which runs that model's
  own validator against \<open>PREFERENCE_TYPES\<close>.
\<close>

definition UserProfile_update_preference ::
  "nat \<Rightarrow> real \<Rightarrow> UserProfile \<Rightarrow> string \<Rightarrow> pydict \<Rightarrow> real \<Rightarrow> pydict option
     \<Rightarrow> (error + real \<times> real) \<times> UserProfile" where
  "UserProfile_update_preference L now self preference_type pref_data confidence context_data =
     (if preference_type \<notin> set SUPPORTED_PREFERENCE_TYPES then (Inl ValueError, self)
      else case PreferenceModel_new now (up_user_id self) preference_type of
             Inl e \<Rightarrow> (Inl e, self)
           | Inr pref_model \<Rightarrow>
               update_preference_body L now self pref_model preference_type pref_data
                 confidence context_data)"

section \<open>Scenario data\<close>

text \<open>
  Concrete inputs for the examples below: messages numbered in unary (\<open>m\<close>, \<open>m1\<close>,
  \<open>m11\<close>, ...), each with the four required fields, a timestamp parser that accepts
  every string, the zero vector of dimension 1536 as the embedding of every message, and
  the context reached from a new one by adding and embedding the first 50 messages in
  turn.
\<close>

definition message_name :: "nat \<Rightarrow> string" where
  "message_name i = CHR ''m'' # replicate i (CHR ''1'')"

definition numbered_message :: "nat \<Rightarrow> message" where
  "numbered_message i =
     [''message_id'' \<mapsto> message_name i, ''sender_id'' \<mapsto> ''user_1'',
      ''content'' \<mapsto> ''test message'', ''timestamp'' \<mapsto> ''2023-01-01T00:00:00'']"

definition epoch_parser :: "string \<Rightarrow> datetime option" where
  "epoch_parser s = Some \<lparr> seconds = 0, aware = False \<rparr>"

definition zero_embedding :: embedding where
  "zero_embedding = replicate 1536 0"

definition add_and_embed :: "Context \<Rightarrow> nat \<Rightarrow> Context" where
  "add_and_embed ctx i =
     snd (update_embeddings 0 (snd (add_message epoch_parser 0 ctx (numbered_message i)))
            (message_name i) zero_embedding)"

definition filled_context :: "nat \<Rightarrow> Context" where
  "filled_context n = foldl add_and_embed (Context_init 0 ''c1'') [0..<n]"

text \<open>The set \<open>{m.message_id for m in short_term_memory}\<close>.\<close>

definition message_id_set :: "message list \<Rightarrow> string set" where
  "message_id_set stm = set (List.map_filter (\<lambda>m. m ''message_id'') stm)"

text \<open>
  The constraints under which \<open>update_preference\<close> cannot raise: the confidence and the
  version within the bounds of the history entry's fields, the history within its limit.
\<close>

definition model_ok :: "nat \<Rightarrow> PreferenceModel \<Rightarrow> bool" where
  "model_ok L m = (0 \<le> confidence_score m \<and> confidence_score m \<le> 1 \<and> 0 \<le> version m \<and>
                   length (history m) \<le> L)"

text \<open>
  The user of the example in preference.py, a new preference model of type \<open>chat\<close> for
  that user, and three updates of its theme, the second with a confidence.
\<close>

definition test_user :: UUID where
  "test_user = 0x123e4567e89b12d3a456426614174000"

definition chat_model :: PreferenceModel where
  "chat_model =
     \<lparr> pm_user_id = test_user, pm_preference_type = ''chat'', preference_data = [],
       history = [], confidence_score = 0.5, pm_created_at = 0, pm_last_updated = 0,
       version = 0 \<rparr>"

definition theme_call :: "real \<Rightarrow> string \<Rightarrow> real option \<Rightarrow> update_call" where
  "theme_call t theme c =
     \<lparr> call_now = t, call_data = [(''theme'', PStr theme)], call_confidence = c,
       call_force = False \<rparr>"

definition three_calls :: "update_call list" where
  "three_calls = [theme_call 1 ''dark'' None, theme_call 2 ''light'' (Some 0.9),
                  theme_call 3 ''dark'' None]"




section \<open>Cache\<close>

text \<open>
  The Redis cache, as the services use it: \<open>setex\<close> stores a value with a time to live,
  \<open>get\<close> returns it until it expires. The values are JSON texts; they are kept in
  parsed form. The cache is taken to answer every call.
\<close>

record cache_entry =
  ce_value :: pyval
  ce_expires :: real

type_synonym cache = "string \<rightharpoonup> cache_entry"

definition cache_get :: "real \<Rightarrow> cache \<Rightarrow> string \<Rightarrow> pyval option" where
  "cache_get now c key =
     (case c key of
        None \<Rightarrow> None
      | Some e \<Rightarrow> if now < ce_expires e then Some (ce_value e) else None)"

definition cache_setex :: "real \<Rightarrow> cache \<Rightarrow> string \<Rightarrow> real \<Rightarrow> pyval \<Rightarrow> cache" where
  "cache_setex now c key ttl v = c(key \<mapsto> \<lparr> ce_value = v, ce_expires = now + ttl \<rparr>)"

section \<open>Learning service (preference-engine/src/services/learning_service.py)\<close>

definition MIN_SAMPLES_REQUIRED :: real where
  "MIN_SAMPLES_REQUIRED = 5"

definition PREDICTION_CACHE_TTL :: real where
  "PREDICTION_CACHE_TTL = 3600"

definition MODEL_VERSION :: string where
  "MODEL_VERSION = ''1.0.0''"

definition CACHE_KEY_PREFIX :: string where
  "CACHE_KEY_PREFIX = ''pref_pred_''"

record LearningService =
  ls_cache :: cache
  ls_model_version :: string

record prediction =
  pattern_type :: string
  pred_confidence :: real
  predicted_value :: pyval

definition prediction_dict :: "prediction \<Rightarrow> pyval" where
  "prediction_dict p =
     PDict [(''pattern_type'', PStr (pattern_type p)), (''confidence'', PNum (pred_confidence p)),
            (''predicted_value'', predicted_value p)]"

text \<open>
  The loop of \<open>get_preference_predictions\<close> over the items of \<open>temporal_patterns\<close>. An
  item whose value is not a number makes the comparison with the threshold raise
  TypeError, and so does a stability that is not a number, once an item qualifies.
\<close>

fun predictions_loop :: "pyval \<Rightarrow> (string \<times> pyval) list \<Rightarrow> error + prediction list" where
  "predictions_loop stability [] = Inr []"
| "predictions_loop stability ((k, v) # rest) =
     (case py_num v of
        None \<Rightarrow> Inl TypeError
      | Some x \<Rightarrow>
          if x \<ge> MIN_SAMPLES_REQUIRED
          then (case py_num stability of
                  None \<Rightarrow> Inl TypeError
                | Some s \<Rightarrow>
                    (case predictions_loop stability rest of
                       Inl e \<Rightarrow> Inl e
                     | Inr ps \<Rightarrow>
                         Inr (\<lparr> pattern_type = k,
                                pred_confidence = min (x / MIN_SAMPLES_REQUIRED) s,
                                predicted_value = v \<rparr> # ps)))
          else predictions_loop stability rest)"

text \<open>\<open>learning_patterns.get('temporal_patterns', {}).items()\<close>: only a dict has items.\<close>

definition generate_predictions :: "pydict \<Rightarrow> error + prediction list" where
  "generate_predictions lp =
     (case dict_get lp ''temporal_patterns'' (PDict []) of
        PDict buckets \<Rightarrow> predictions_loop (dict_get lp ''preference_stability'' (PNum 0.5)) buckets
      | other \<Rightarrow> Inl AttributeError)"

definition overall_confidence :: "prediction list \<Rightarrow> real" where
  "overall_confidence ps =
     (if ps = [] then 0.0 else sum_list (map pred_confidence ps) / real (length ps))"

definition prediction_response :: "UUID \<Rightarrow> string \<Rightarrow> prediction list \<Rightarrow> real \<Rightarrow> string \<Rightarrow> string \<Rightarrow> pyval" where
  "prediction_response uid ptype ps conf ver now_iso =
     PDict [(''user_id'', PStr (uuid_str uid)), (''preference_type'', PStr ptype),
            (''predictions'', PList (map prediction_dict ps)), (''confidence_score'', PNum conf),
            (''model_version'', PStr ver), (''timestamp'', PStr now_iso)]"

text \<open>\<open>cached_predictions['version']\<close> on a parsed JSON value.\<close>

definition cached_version :: "pyval \<Rightarrow> error + pyval" where
  "cached_version v =
     (case v of
        PDict d \<Rightarrow> (case map_of d ''version'' of None \<Rightarrow> Inl KeyError | Some x \<Rightarrow> Inr x)
      | other \<Rightarrow> Inl TypeError)"

text \<open>
  \<open>PreferenceLearningService.get_preference_predictions\<close>. \<open>now\<close> is the clock,
  \<open>now_iso\<close> its ISO text. The configuration argument is not read. First the part after
  the cache check (lines 226 to 274): the profile is constructed inside the method, from
  the user id alone (line 227).
\<close>

definition recompute_predictions ::
  "real \<Rightarrow> string \<Rightarrow> LearningService \<Rightarrow> UUID \<Rightarrow> string \<Rightarrow> string
     \<Rightarrow> (error + pyval) \<times> LearningService" where
  "recompute_predictions now now_iso svc uid ptype cache_key =
     (let user_profile = UserProfile_init now uid;
          lp = (case learning_patterns user_profile ptype of None \<Rightarrow> [] | Some d \<Rightarrow> d)
      in if lp = []
         then (Inr (prediction_response uid ptype [] 0.0 (ls_model_version svc) now_iso), svc)
         else case generate_predictions lp of
                Inl e \<Rightarrow> (Inl e, svc)
              | Inr ps \<Rightarrow>
                  let response = prediction_response uid ptype ps (overall_confidence ps)
                                   (ls_model_version svc) now_iso
                  in (Inr response,
                      svc\<lparr>ls_cache := cache_setex now (ls_cache svc) cache_key
                                         PREDICTION_CACHE_TTL response\<rparr>))"

definition get_preference_predictions ::
  "real \<Rightarrow> string \<Rightarrow> LearningService \<Rightarrow> UUID \<Rightarrow> string \<Rightarrow> (error + pyval) \<times> LearningService" where
  "get_preference_predictions now now_iso svc uid ptype =
     (let cache_key = CACHE_KEY_PREFIX @ uuid_str uid @ '':'' @ ptype
      in case cache_get now (ls_cache svc) cache_key of
           None \<Rightarrow> recompute_predictions now now_iso svc uid ptype cache_key
         | Some cached_predictions \<Rightarrow>
             (case cached_version cached_predictions of
                Inl e \<Rightarrow> (Inl e, svc)
              | Inr v \<Rightarrow>
                  if v = PStr (ls_model_version svc) then (Inr cached_predictions, svc)
                  else recompute_predictions now now_iso svc uid ptype cache_key))"

text \<open>
  A cache miss of \<open>get_preference_predictions\<close>: no live entry under the key, or an
  entry whose \<open>version\<close> is not the model version of the service.
\<close>

definition prediction_cache_miss :: "real \<Rightarrow> LearningService \<Rightarrow> UUID \<Rightarrow> string \<Rightarrow> bool" where
  "prediction_cache_miss now svc uid ptype =
     (case cache_get now (ls_cache svc) (CACHE_KEY_PREFIX @ uuid_str uid @ '':'' @ ptype) of
        None \<Rightarrow> True
      | Some cached \<Rightarrow>
          (case cached_version cached of
             Inl e \<Rightarrow> False
           | Inr v \<Rightarrow> v \<noteq> PStr (ls_model_version svc)))"

definition new_learning_service :: LearningService where
  "new_learning_service = \<lparr> ls_cache = Map.empty, ls_model_version = MODEL_VERSION \<rparr>"

text \<open>
  The buckets of a temporal-pattern dict that reach the minimum number of samples, and
  the prediction the specification gives for such a bucket.
\<close>

definition bucket_count :: "pyval \<Rightarrow> real" where
  "bucket_count v = (case py_num v of None \<Rightarrow> 0 | Some x \<Rightarrow> x)"

definition qualifying :: "(string \<times> pyval) list \<Rightarrow> (string \<times> pyval) list" where
  "qualifying buckets = filter (\<lambda>kv. bucket_count (snd kv) \<ge> 5) buckets"

definition bucket_prediction :: "real \<Rightarrow> string \<times> pyval \<Rightarrow> prediction" where
  "bucket_prediction stability kv =
     \<lparr> pattern_type = fst kv, pred_confidence = min (bucket_count (snd kv) / 5) stability,
       predicted_value = snd kv \<rparr>"

definition temporal_buckets :: "pydict \<Rightarrow> (string \<times> pyval) list" where
  "temporal_buckets lp =
     (case dict_get lp ''temporal_patterns'' (PDict []) of PDict b \<Rightarrow> b | other \<Rightarrow> [])"

definition preference_stability :: "pydict \<Rightarrow> real" where
  "preference_stability lp = bucket_count (dict_get lp ''preference_stability'' (PNum 0.5))"

text \<open>
  Two learning patterns to run the loop on. The first has counts directly under
  \<open>temporal_patterns\<close>. The second has the shape \<open>analyze_learning_patterns\<close> stores
  (user_profile.py, lines 179 to 184 and 296 to 308): the three histograms \<open>hourly\<close>,
  \<open>daily\<close> and \<open>weekly\<close> of \<open>_analyze_temporal_patterns\<close>, here for six entries of
  Monday, 2 January 2023, at 14 hours. The integer keys of the histograms are written
  as strings.
\<close>

definition flat_patterns :: pydict where
  "flat_patterns =
     [(''consistency_score'', PNum 1), (''temporal_patterns'', PDict [(''14'', PNum 6), (''9'', PNum 3)]),
      (''preference_stability'', PNum 0.8)]"

definition analysed_patterns :: pydict where
  "analysed_patterns =
     [(''consistency_score'', PNum 1),
      (''temporal_patterns'',
         PDict [(''hourly'', PDict [(''14'', PNum 6)]), (''daily'', PDict [(''0'', PNum 6)]),
                (''weekly'', PDict [(''1'', PNum 6)])]),
      (''preference_stability'', PNum 0.8)]"

section \<open>Recommendation scoring (preference-engine/src/services/recommendation_service.py)\<close>

definition RECOMMENDATION_CACHE_TTL :: real where
  "RECOMMENDATION_CACHE_TTL = 1800"

definition MIN_RECOMMENDATION_SCORE :: real where
  "MIN_RECOMMENDATION_SCORE = 0.7"

definition MAX_RECOMMENDATIONS :: nat where
  "MAX_RECOMMENDATIONS = 10"

definition SUPPORTED_RECOMMENDATION_TYPES :: "string list" where
  "SUPPORTED_RECOMMENDATION_TYPES = [''ai_agent'', ''chat_group'', ''content'']"

definition SCORE_WEIGHTS :: "string \<Rightarrow> real" where
  "SCORE_WEIGHTS k =
     (if k = ''preference'' then 0.6 else if k = ''context'' then 0.3
      else if k = ''diversity'' then 0.1 else 0)"

text \<open>
  A numpy float: a real number or NaN. \<open>np.mean\<close> of an empty list is NaN, and NaN
  spreads through arithmetic. The cosine of two value vectors is computed by numpy and is
  a parameter of the model: it returns the float, or the exception numpy raised.
\<close>

datatype npfloat = Fin real | NaN

fun np_mean :: "npfloat list \<Rightarrow> npfloat" where
  "np_mean [] = NaN"
| "np_mean xs =
     (if NaN \<in> set xs then NaN
      else Fin (sum_list (map (\<lambda>x. case x of Fin r \<Rightarrow> r | NaN \<Rightarrow> 0) xs) / real (length xs)))"

definition real_mean :: "real list \<Rightarrow> real" where
  "real_mean xs = sum_list xs / real (length xs)"

text \<open>\<open>_calculate_feature_match\<close>: every exception inside the \<open>try\<close> gives 0.0.\<close>

definition calculate_feature_match ::
  "(pyval list \<Rightarrow> pyval list \<Rightarrow> error + npfloat) \<Rightarrow> pyval \<Rightarrow> pyval \<Rightarrow> npfloat" where
  "calculate_feature_match np_cosine user_feature item_feature =
     (if \<not> truthy user_feature \<or> \<not> truthy item_feature then Fin 0.0
      else case user_feature of
             PDict u \<Rightarrow>
               (case item_feature of
                  PDict i \<Rightarrow>
                    (case np_cosine (map snd u) (map snd i) of
                       Inl e \<Rightarrow> Fin 0.0
                     | Inr x \<Rightarrow> x)
                | other \<Rightarrow> Fin 0.0)
           | other \<Rightarrow> Fin 0.0)"

text \<open>
  \<open>set(x)\<close> and \<open>len(x)\<close> on a value. A list holding a list or a dict cannot be made
  a set; a number, a boolean and \<open>None\<close> have neither elements nor a length.
\<close>

fun hashable :: "pyval \<Rightarrow> bool" where
  "hashable (PList l) = False"
| "hashable (PDict d) = False"
| "hashable v = True"

fun py_set :: "pyval \<Rightarrow> error + pyval list" where
  "py_set (PList l) = (if list_all hashable l then Inr (remdups l) else Inl TypeError)"
| "py_set (PStr s) = Inr (remdups (map (\<lambda>c. PStr [c]) s))"
| "py_set (PDict d) = Inr (remdups (map (\<lambda>kv. PStr (fst kv)) d))"
| "py_set v = Inl TypeError"

fun py_len :: "pyval \<Rightarrow> error + nat" where
  "py_len (PList l) = Inr (length l)"
| "py_len (PStr s) = Inr (length s)"
| "py_len (PDict d) = Inr (length d)"
| "py_len v = Inl TypeError"

text \<open>The time part of \<open>_calculate_context_relevance\<close>, run when both keys are present.\<close>

definition time_relevance ::
  "(string \<Rightarrow> datetime option) \<Rightarrow> pyval \<Rightarrow> pyval \<Rightarrow> error + real" where
  "time_relevance fromisoformat ctx_timestamp valid_period =
     (case ctx_timestamp of
        PStr ts \<Rightarrow>
          (case fromisoformat ts of
             None \<Rightarrow> Inl ValueError
           | Some t1 \<Rightarrow>
               (case valid_period of
                  PDict vp \<Rightarrow>
                    (case map_of vp ''start'' of
                       None \<Rightarrow> Inl KeyError
                     | Some (PStr start) \<Rightarrow>
                         (case fromisoformat start of
                            None \<Rightarrow> Inl ValueError
                          | Some t2 \<Rightarrow>
                              if aware t1 \<noteq> aware t2 then Inl TypeError
                              else
                                let time_diff = \<bar>seconds t1 - seconds t2\<bar>
                                in Inr (1.0 / (1.0 + time_diff / 86400)))
                     | Some other \<Rightarrow> Inl TypeError)
                | other \<Rightarrow> Inl TypeError))
      | other \<Rightarrow> Inl TypeError)"

text \<open>The group part, run when \<open>group_dynamics.get('active_users')\<close> is true.\<close>

definition group_relevance :: "pydict \<Rightarrow> pyval \<Rightarrow> error + real" where
  "group_relevance item active_users =
     (case py_set (dict_get item ''target_users'' (PList [])) of
        Inl e \<Rightarrow> Inl e
      | Inr targets \<Rightarrow>
          (case py_set active_users of
             Inl e \<Rightarrow> Inl e
           | Inr active \<Rightarrow>
               (case py_len active_users of
                  Inl e \<Rightarrow> Inl e
                | Inr n \<Rightarrow>
                    Inr (real (length (filter (\<lambda>x. x \<in> set active) targets)) / real n))))"

definition calculate_context_relevance ::
  "(string \<Rightarrow> datetime option) \<Rightarrow> pydict \<Rightarrow> pydict \<Rightarrow> pydict \<Rightarrow> error + real" where
  "calculate_context_relevance fromisoformat ctx item group_dyn =
     (case (if map_of ctx ''timestamp'' \<noteq> None \<and> map_of item ''valid_period'' \<noteq> None
            then (case time_relevance fromisoformat (dict_get ctx ''timestamp'' PNone)
                         (dict_get item ''valid_period'' PNone) of
                    Inl e \<Rightarrow> Inl e
                  | Inr time_score \<Rightarrow> Inr [time_score])
            else Inr []) of
        Inl e \<Rightarrow> Inl e
      | Inr scores1 \<Rightarrow>
          (case (if truthy (dict_get group_dyn ''active_users'' PNone)
                 then (case group_relevance item (dict_get group_dyn ''active_users'' PNone) of
                         Inl e \<Rightarrow> Inl e
                       | Inr group_score \<Rightarrow> Inr (scores1 @ [group_score]))
                 else Inr scores1) of
             Inl e \<Rightarrow> Inl e
           | Inr relevance_scores \<Rightarrow>
               Inr (if relevance_scores = [] then 0.5 else real_mean relevance_scores)))"

text \<open>
  \<open>_calculate_diversity_score\<close>. The history is whatever \<open>user_preferences\<close> holds under
  \<open>history\<close>; only a list can be sliced and iterated to dicts.
\<close>

fun item_similarities :: "pydict \<Rightarrow> pyval list \<Rightarrow> error + real list" where
  "item_similarities item [] = Inr []"
| "item_similarities item (hist_item # rest) =
     (case hist_item of
        PDict h \<Rightarrow>
          (case item_similarities item rest of
             Inl e \<Rightarrow> Inl e
           | Inr sims \<Rightarrow>
               let common_keys = filter (\<lambda>k. k \<in> set (map fst h)) (remdups (map fst item))
               in if common_keys = [] then Inr sims
                  else Inr (real (length (filter (\<lambda>k. map_of item k = map_of h k) common_keys))
                              / real (length common_keys) # sims))
      | other \<Rightarrow> Inl AttributeError)"

definition calculate_diversity_score :: "pydict \<Rightarrow> pyval \<Rightarrow> error + real" where
  "calculate_diversity_score item hist =
     (if \<not> truthy hist then Inr 1.0
      else case hist of
             PList l \<Rightarrow>
               (case item_similarities item (drop (length l - 10) l) of
                  Inl e \<Rightarrow> Inl e
                | Inr similarity_scores \<Rightarrow>
                    Inr (1.0 - (if similarity_scores = [] then 0.0 else real_mean similarity_scores)))
           | PStr s \<Rightarrow> Inl AttributeError
           | other \<Rightarrow> Inl TypeError)"

text \<open>
  \<open>calculate_recommendation_score\<close>. An exception anywhere gives 0.0. A NaN preference
  score makes the weighted sum NaN, and \<open>max(0.0, min(1.0, nan))\<close> is 1.0, since every
  comparison with NaN is false.
\<close>

definition calculate_recommendation_score ::
  "(pyval list \<Rightarrow> pyval list \<Rightarrow> error + npfloat) \<Rightarrow> (string \<Rightarrow> datetime option)
     \<Rightarrow> pydict \<Rightarrow> pydict \<Rightarrow> pydict \<Rightarrow> pydict \<Rightarrow> real" where
  "calculate_recommendation_score np_cosine fromisoformat user_preferences context_data
       recommendation_item group_dyn =
     (let preference_score =
            np_mean (map (\<lambda>feature.
                       calculate_feature_match np_cosine
                         (dict_get user_preferences feature (PDict []))
                         (dict_get recommendation_item feature (PDict [])))
                     (map fst recommendation_item))
      in case calculate_context_relevance fromisoformat context_data recommendation_item group_dyn of
           Inl e \<Rightarrow> 0.0
         | Inr context_score \<Rightarrow>
             (case calculate_diversity_score recommendation_item
                     (dict_get user_preferences ''history'' (PList [])) of
                Inl e \<Rightarrow> 0.0
              | Inr diversity_score \<Rightarrow>
                  (case preference_score of
                     NaN \<Rightarrow> 1.0
                   | Fin p \<Rightarrow>
                       let final_score = p * SCORE_WEIGHTS ''preference'' +
                                         context_score * SCORE_WEIGHTS ''context'' +
                                         diversity_score * SCORE_WEIGHTS ''diversity''
                       in max 0.0 (min 1.0 final_score))))"

text \<open>
  The input of the repository's test \<open>test_recommendation_scoring\<close> for empty
  preferences.
\<close>

definition test_item :: pydict where
  "test_item =
     [(''content'', PDict [(''type'', PStr ''technical''), (''level'', PStr ''advanced'')]),
      (''format'', PDict [(''type'', PStr ''article''), (''length'', PStr ''long'')]),
      (''topics'', PList [PStr ''python'', PStr ''testing'', PStr ''devops''])]"

definition test_context :: pydict where
  "test_context =
     [(''time'', PStr ''2023-01-01T00:00:00''), (''activity'', PStr ''coding''),
      (''platform'', PStr ''desktop'')]"

section \<open>Recommendation service (preference-engine/src/services/recommendation_service.py)\<close>

text \<open>
  The service object: the learning service it was given, its cache, the two counters of
  \<open>_cache_stats\<close> under their keys \<open>hits\<close> and \<open>misses\<close> with the time of the last
  reset beside them, and the error counter of \<open>_performance_metrics\<close>. The Prometheus
  metrics and the log are left out.
\<close>

record RecommendationService =
  rs_learning :: LearningService
  rs_cache :: cache
  rs_cache_stats :: "string \<rightharpoonup> int"
  rs_last_reset :: real
  rs_error_count :: int

definition new_recommendation_service :: RecommendationService where
  "new_recommendation_service =
     \<lparr> rs_learning = new_learning_service, rs_cache = Map.empty,
       rs_cache_stats = [''hits'' \<mapsto> 0, ''misses'' \<mapsto> 0], rs_last_reset = 0,
       rs_error_count = 0 \<rparr>"

text \<open>
  \<open>get_recommendations\<close> and \<open>_generate_candidates\<close> call five methods that no class of
  the repository defines: \<open>self._get_from_cache\<close>, the three candidate generators
  \<open>self._generate_agent_candidates\<close>, \<open>self._generate_group_candidates\<close> and
  \<open>self._generate_content_candidates\<close>, and \<open>user_profile.get_group_dynamics\<close>. Looking
  the attribute up raises AttributeError, whatever the arguments are.
\<close>

definition get_from_cache :: "RecommendationService \<Rightarrow> string \<Rightarrow> error + pyval" where
  "get_from_cache svc cache_key = Inl AttributeError"

definition generate_agent_candidates ::
  "RecommendationService \<Rightarrow> pydict \<Rightarrow> pyval \<Rightarrow> pydict option \<Rightarrow> error + pydict list" where
  "generate_agent_candidates svc prefs predictions ctx = Inl AttributeError"

definition generate_group_candidates ::
  "RecommendationService \<Rightarrow> UUID \<Rightarrow> pydict \<Rightarrow> pydict option \<Rightarrow> error + pydict list" where
  "generate_group_candidates svc uid prefs ctx = Inl AttributeError"

definition generate_content_candidates ::
  "RecommendationService \<Rightarrow> pydict \<Rightarrow> pyval \<Rightarrow> pydict option \<Rightarrow> error + pydict list" where
  "generate_content_candidates svc prefs predictions ctx = Inl AttributeError"

definition UserProfile_get_group_dynamics :: "UserProfile \<Rightarrow> error + pydict" where
  "UserProfile_get_group_dynamics user_profile = Inl AttributeError"

text \<open>
  numpy's cosine and the timestamp parser, library functions used by the scoring, are
  parameters of the model.
\<close>

record Library =
  lib_np_cosine :: "pyval list \<Rightarrow> pyval list \<Rightarrow> error + npfloat"
  lib_fromisoformat :: "string \<Rightarrow> datetime option"

text \<open>
  \<open>_update_cache_stats\<close>: the counter is addressed by the result followed by the letter
  \<open>s\<close>, so \<open>hit\<close> finds \<open>hits\<close> and \<open>miss\<close> looks for \<open>misss\<close>; a key that is not
  there raises KeyError. Past 10000 observations both counters are reset.
\<close>

definition update_cache_stats :: "real \<Rightarrow> RecommendationService \<Rightarrow> string \<Rightarrow> error + RecommendationService" where
  "update_cache_stats now svc result =
     (case rs_cache_stats svc (result @ ''s'') of
        None \<Rightarrow> Inl KeyError
      | Some n \<Rightarrow>
          let stats1 = (rs_cache_stats svc)(result @ ''s'' \<mapsto> n + 1);
              svc1 = svc\<lparr>rs_cache_stats := stats1\<rparr>
          in case stats1 ''hits'' of
               None \<Rightarrow> Inl KeyError
             | Some h \<Rightarrow>
                 (case stats1 ''misses'' of
                    None \<Rightarrow> Inl KeyError
                  | Some m \<Rightarrow>
                      if h + m > 10000
                      then Inr (svc1\<lparr>rs_cache_stats := [''hits'' \<mapsto> 0, ''misses'' \<mapsto> 0],
                                      rs_last_reset := now\<rparr>)
                      else Inr svc1))"

text \<open>
  \<open>PreferenceModel.get_history(user_id=user_id, limit=100)\<close>: the method is called on
  the class, without an instance, with a keyword \<open>user_id\<close> that it does not have
  (preference.py, line 121). Python raises TypeError for such a call.
\<close>

definition PreferenceModel_get_history_on_class :: "UUID \<Rightarrow> nat \<Rightarrow> error + pydict" where
  "PreferenceModel_get_history_on_class uid limit = Inl TypeError"

text \<open>\<open>_generate_candidates\<close>, an \<open>async def\<close> method: one generator by type.\<close>

definition generate_candidates ::
  "RecommendationService \<Rightarrow> UUID \<Rightarrow> string \<Rightarrow> pydict \<Rightarrow> pyval \<Rightarrow> pydict option \<Rightarrow> error + pydict list" where
  "generate_candidates svc uid recommendation_type prefs predictions ctx =
     (if recommendation_type = ''ai_agent'' then generate_agent_candidates svc prefs predictions ctx
      else if recommendation_type = ''chat_group'' then generate_group_candidates svc uid prefs ctx
      else if recommendation_type = ''content'' then generate_content_candidates svc prefs predictions ctx
      else Inr [])"

text \<open>
  The scoring loop. The group dynamics are fetched anew for every candidate, as an
  argument of the call; \<open>predictions.get\<close> is reached only for a candidate that is kept.
\<close>

fun score_candidates ::
  "Library \<Rightarrow> string \<Rightarrow> UserProfile \<Rightarrow> pydict \<Rightarrow> pydict \<Rightarrow> pyval \<Rightarrow> pydict list
     \<Rightarrow> error + pyval list" where
  "score_candidates lib now_iso user_profile prefs ctx predictions [] = Inr []"
| "score_candidates lib now_iso user_profile prefs ctx predictions (candidate # rest) =
     (case UserProfile_get_group_dynamics user_profile of
        Inl e \<Rightarrow> Inl e
      | Inr group_dyn \<Rightarrow>
          let score = calculate_recommendation_score (lib_np_cosine lib) (lib_fromisoformat lib)
                        prefs ctx candidate group_dyn
          in if score \<ge> MIN_RECOMMENDATION_SCORE
             then (case predictions of
                     PDict p \<Rightarrow>
                       (case score_candidates lib now_iso user_profile prefs ctx predictions rest of
                          Inl e \<Rightarrow> Inl e
                        | Inr scored \<Rightarrow>
                            Inr (PDict [(''item'', PDict candidate), (''score'', PNum score),
                                        (''confidence'', dict_get p ''confidence_score'' (PNum 0.5)),
                                        (''timestamp'', PStr now_iso)] # scored))
                   | other \<Rightarrow> Inl AttributeError)
             else score_candidates lib now_iso user_profile prefs ctx predictions rest)"

text \<open>
  \<open>sorted(..., key=score, reverse=True)\<close>: descending, entries of equal score in their
  original order.
\<close>

definition recommendation_score :: "pyval \<Rightarrow> real" where
  "recommendation_score r =
     (case r of
        PDict d \<Rightarrow> (case map_of d ''score'' of Some (PNum x) \<Rightarrow> x | other \<Rightarrow> 0)
      | other \<Rightarrow> 0)"

fun insert_recommendation :: "pyval \<Rightarrow> pyval list \<Rightarrow> pyval list" where
  "insert_recommendation r [] = [r]"
| "insert_recommendation r (x # xs) =
     (if recommendation_score x \<ge> recommendation_score r then x # insert_recommendation r xs
      else r # x # xs)"

definition sort_recommendations :: "pyval list \<Rightarrow> pyval list" where
  "sort_recommendations rs = foldl (\<lambda>sorted r. insert_recommendation r sorted) [] rs"

text \<open>
  \<open>_cache_recommendations\<close>: the list wrapped with a timestamp and a version. The method
  awaits the result of \<open>setex\<close> of the synchronous Redis client: the entry is written,
  and the TypeError of the \<open>await\<close> is caught by the method's own \<open>except\<close> clause.
\<close>

definition cache_recommendations ::
  "real \<Rightarrow> string \<Rightarrow> RecommendationService \<Rightarrow> string \<Rightarrow> pyval list \<Rightarrow> RecommendationService" where
  "cache_recommendations now now_iso svc cache_key recommendations =
     svc\<lparr>rs_cache := cache_setex now (rs_cache svc) cache_key RECOMMENDATION_CACHE_TTL
                        (PDict [(''recommendations'', PList recommendations),
                                (''timestamp'', PStr now_iso), (''version'', PStr ''1.0.0'')])\<rparr>"

text \<open>The part of \<open>get_recommendations\<close> after the cache check (source lines 157 to 222).\<close>

definition generate_recommendations ::
  "Library \<Rightarrow> real \<Rightarrow> string \<Rightarrow> RecommendationService \<Rightarrow> UUID \<Rightarrow> string \<Rightarrow> pydict option
     \<Rightarrow> (error + pyval) \<times> RecommendationService" where
  "generate_recommendations lib now now_iso svc uid recommendation_type ctx =
     (case update_cache_stats now svc ''miss'' of
        Inl e \<Rightarrow> (Inl e, svc)
      | Inr svc1 \<Rightarrow>
          let user_profile = UserProfile_init now uid
          in case PreferenceModel_get_history_on_class uid 100 of
               Inl e \<Rightarrow> (Inl e, svc1)
             | Inr prefs \<Rightarrow>
                 (case get_preference_predictions now now_iso (rs_learning svc1) uid recommendation_type of
                    (Inl e, ls) \<Rightarrow> (Inl e, svc1\<lparr>rs_learning := ls\<rparr>)
                  | (Inr predictions, ls) \<Rightarrow>
                      let svc2 = svc1\<lparr>rs_learning := ls\<rparr>
                      in case generate_candidates svc2 uid recommendation_type prefs predictions ctx of
                           Inl e \<Rightarrow> (Inl e, svc2)
                         | Inr candidates \<Rightarrow>
                             (case score_candidates lib now_iso user_profile prefs
                                     (case ctx of None \<Rightarrow> [] | Some c \<Rightarrow> c) predictions candidates of
                                Inl e \<Rightarrow> (Inl e, svc2)
                              | Inr scored_recommendations \<Rightarrow>
                                  let recommendations =
                                        take MAX_RECOMMENDATIONS (sort_recommendations scored_recommendations);
                                      cache_key = ''rec_'' @ uuid_str uid @ '':'' @ recommendation_type
                                  in (Inr (PList recommendations),
                                      cache_recommendations now now_iso svc2 cache_key recommendations))))"

text \<open>
  One attempt of \<open>get_recommendations\<close>. A true value from the cache is returned as it
  is. The \<open>except\<close> clause counts the error and raises it again.
\<close>

definition get_recommendations_once ::
  "Library \<Rightarrow> real \<Rightarrow> string \<Rightarrow> RecommendationService \<Rightarrow> UUID \<Rightarrow> string \<Rightarrow> pydict option
     \<Rightarrow> bool \<Rightarrow> (error + pyval) \<times> RecommendationService" where
  "get_recommendations_once lib now now_iso svc uid recommendation_type ctx refresh_cache =
     (case (if recommendation_type \<notin> set SUPPORTED_RECOMMENDATION_TYPES then (Inl ValueError, svc)
            else if \<not> refresh_cache
            then (case get_from_cache svc (''rec_'' @ uuid_str uid @ '':'' @ recommendation_type) of
                    Inl e \<Rightarrow> (Inl e, svc)
                  | Inr cached_data \<Rightarrow>
                      if truthy cached_data
                      then (case update_cache_stats now svc ''hit'' of
                              Inl e \<Rightarrow> (Inl e, svc)
                            | Inr svc1 \<Rightarrow> (Inr cached_data, svc1))
                      else generate_recommendations lib now now_iso svc uid recommendation_type ctx)
            else generate_recommendations lib now now_iso svc uid recommendation_type ctx) of
        (Inl e, svc') \<Rightarrow> (Inl e, svc'\<lparr>rs_error_count := rs_error_count svc' + 1\<rparr>)
      | (Inr recommendations, svc') \<Rightarrow> (Inr recommendations, svc'))"

text \<open>
  The retry decorator of \<open>get_recommendations\<close> gives no predicate: every exception is
  retried, three attempts in all. The clock is read per attempt.
\<close>

definition CACHE_RETRY_ATTEMPTS :: nat where
  "CACHE_RETRY_ATTEMPTS = 3"

definition get_recommendations ::
  "Library \<Rightarrow> (nat \<Rightarrow> real \<times> string) \<Rightarrow> RecommendationService \<Rightarrow> UUID \<Rightarrow> string
     \<Rightarrow> pydict option \<Rightarrow> bool \<Rightarrow> (error + pyval) \<times> RecommendationService \<times> nat" where
  "get_recommendations lib clock svc uid recommendation_type ctx refresh_cache =
     retry_loop CACHE_RETRY_ATTEMPTS 0 (\<lambda>e. True)
       (\<lambda>attempt s. get_recommendations_once lib (fst (clock attempt)) (snd (clock attempt)) s uid
                       recommendation_type ctx refresh_cache) svc"

section \<open>Verified properties\<close>

subsection \<open>Short-term memory\<close>

lemma add_message_stm:
  "has_required_fields m \<Longrightarrow>
   short_term_memory (snd (add_message f now ctx m)) =
     (if length (short_term_memory ctx @ [m]) > MAX_SHORT_TERM_MESSAGES
      then tl (short_term_memory ctx @ [m]) else short_term_memory ctx @ [m])"
  by (auto simp: add_message_def update_reply_metrics_def Let_def
           split: option.splits prod.splits if_splits)

lemma add_message_embeddings:
  "embeddings (snd (add_message f now ctx m)) = embeddings ctx"
  by (auto simp: add_message_def update_reply_metrics_def Let_def
           split: option.splits prod.splits if_splits)

text \<open>
  Started on a memory within its bound, a run of calls leaves the last
  \<open>MAX_SHORT_TERM_MESSAGES\<close> of what was there and what came in.
\<close>

lemma add_messages_stm:
  "\<forall>c \<in> set calls. has_required_fields (snd c) \<Longrightarrow>
   length (short_term_memory ctx) \<le> MAX_SHORT_TERM_MESSAGES \<Longrightarrow>
   short_term_memory (add_messages f ctx calls) =
     drop (length (short_term_memory ctx @ map snd calls) - MAX_SHORT_TERM_MESSAGES)
          (short_term_memory ctx @ map snd calls)"
proof (induction calls arbitrary: ctx)
  case Nil
  then show ?case by simp
next
  case (Cons c calls)
  obtain now m where c: "c = (now, m)" by (cases c)
  let ?ctx' = "snd (add_message f now ctx m)"
  have req: "has_required_fields m" using Cons.prems(1) c by simp
  have stm': "short_term_memory ?ctx' =
     (if length (short_term_memory ctx @ [m]) > MAX_SHORT_TERM_MESSAGES
      then tl (short_term_memory ctx @ [m]) else short_term_memory ctx @ [m])"
    by (rule add_message_stm [OF req])
  have len': "length (short_term_memory ?ctx') \<le> MAX_SHORT_TERM_MESSAGES"
    using Cons.prems(2) by (simp add: stm')
  have ih: "short_term_memory (add_messages f ?ctx' calls) =
     drop (length (short_term_memory ?ctx' @ map snd calls) - MAX_SHORT_TERM_MESSAGES)
          (short_term_memory ?ctx' @ map snd calls)"
    using Cons.IH [of ?ctx'] Cons.prems(1) len' by simp
  show ?case
  proof (cases "length (short_term_memory ctx @ [m]) > MAX_SHORT_TERM_MESSAGES")
    case True
    then have full: "length (short_term_memory ctx) = MAX_SHORT_TERM_MESSAGES"
      using Cons.prems(2) by simp
    then obtain x xs where xs: "short_term_memory ctx = x # xs"
      by (cases "short_term_memory ctx") (auto simp: MAX_SHORT_TERM_MESSAGES_def)
    have lxs: "Suc (length xs) = MAX_SHORT_TERM_MESSAGES" using full xs by simp
    from True have s: "short_term_memory ?ctx' = xs @ [m]"
      by (simp add: stm' xs)
    have "length (short_term_memory ctx @ map snd (c # calls)) - MAX_SHORT_TERM_MESSAGES
            = Suc (length calls)"
      using lxs by (simp add: xs)
    moreover have "length (short_term_memory ?ctx' @ map snd calls) - MAX_SHORT_TERM_MESSAGES
            = length calls"
      using lxs by (simp add: s)
    ultimately show ?thesis by (simp add: c ih s xs)
  next
    case False
    then have s: "short_term_memory ?ctx' = short_term_memory ctx @ [m]"
      by (simp add: stm')
    show ?thesis by (simp add: c ih s)
  qed
qed

text \<open>
  C1. More than 50 messages with the required fields are added, one call of
  \<open>Context.add_message\<close> each, to a context whose memory is within its bound (a new
  context is). Afterwards the short-term memory has exactly 50 messages, and they are
  the last 50 of the messages added, in the order of the calls. The statement does not
  depend on what the timestamps parse to: a call that raises after the append has
  appended all the same.
\<close>

theorem bounded_memory:
  assumes "\<forall>c \<in> set calls. has_required_fields (snd c)"
    and "length calls > 50"
    and "length (short_term_memory ctx) \<le> 50"
  shows "length (short_term_memory (add_messages fromisoformat ctx calls)) = 50 \<and>
         short_term_memory (add_messages fromisoformat ctx calls) =
           drop (length calls - 50) (map snd calls)"
proof -
  have "short_term_memory (add_messages fromisoformat ctx calls) =
     drop (length (short_term_memory ctx @ map snd calls) - MAX_SHORT_TERM_MESSAGES)
          (short_term_memory ctx @ map snd calls)"
    using assms(1,3) by (intro add_messages_stm) (simp_all add: MAX_SHORT_TERM_MESSAGES_def)
  also have "\<dots> = drop (length calls - MAX_SHORT_TERM_MESSAGES) (map snd calls)"
    using assms(2) by (simp add: MAX_SHORT_TERM_MESSAGES_def)
  finally have eq: "short_term_memory (add_messages fromisoformat ctx calls) =
     drop (length calls - MAX_SHORT_TERM_MESSAGES) (map snd calls)" .
  then show ?thesis using assms(2) by (simp add: MAX_SHORT_TERM_MESSAGES_def)
qed

lemma numbered_required: "has_required_fields (numbered_message i)"
  by (simp add: has_required_fields_def required_fields_def numbered_message_def)

text \<open>C1 at the messages 0 to 50 added to a new context: messages 1 to 50 remain.\<close>

theorem bounded_memory_witness:
  "list_all (\<lambda>c. has_required_fields (snd c)) (map (\<lambda>i. (0::real, numbered_message i)) [0..<51]) \<and>
   length (map (\<lambda>i. (0::real, numbered_message i)) [0..<51]) > 50 \<and>
   length (short_term_memory (Context_init 0 ''c1'')) \<le> 50 \<and>
   length (short_term_memory (add_messages epoch_parser (Context_init 0 ''c1'')
             (map (\<lambda>i. (0, numbered_message i)) [0..<51]))) = 50 \<and>
   short_term_memory (add_messages epoch_parser (Context_init 0 ''c1'')
             (map (\<lambda>i. (0, numbered_message i)) [0..<51])) = map numbered_message [1..<51]"
proof -
  let ?calls = "map (\<lambda>i. (0::real, numbered_message i)) [0..<51]"
  have h1: "\<forall>c \<in> set ?calls. has_required_fields (snd c)"
    by (simp add: numbered_required)
  have h2: "length ?calls > 50" by simp
  have h3: "length (short_term_memory (Context_init 0 ''c1'')) \<le> 50"
    by (simp add: Context_init_def)
  have "drop (length ?calls - 50) (map snd ?calls) = map numbered_message (drop 1 [0..<51])"
    by (simp add: drop_map comp_def del: upt.simps)
  also have "drop 1 [0..<51] = [1..<51]"
    by (simp add: drop_upt del: upt.simps)
  finally have d: "drop (length ?calls - 50) (map snd ?calls) = map numbered_message [1..<51]" .
  have l: "list_all (\<lambda>c. has_required_fields (snd c)) ?calls"
    using h1 by (simp only: list_all_iff)
  show ?thesis
    using bounded_memory [OF h1 h2 h3, of epoch_parser] l h2 h3 d by simp
qed

subsection \<open>Retry decorator\<close>

text \<open>
  When every attempt raises and leaves the state as it found it, so does the retrying
  call; when moreover every exception is retried, it ends in \<open>RetryError\<close> after the
  last attempt.
\<close>

lemma retry_loop_raises:
  assumes "\<And>a s. \<exists>e. f a s = (Inl e, s)"
  shows "\<exists>e k. retry_loop r n p f s = (Inl e, s, k)"
proof (induction r arbitrary: n)
  case 0
  then show ?case by simp
next
  case (Suc r)
  from assms obtain e where "f (Suc n) s = (Inl e, s)" by blast
  with Suc show ?case by simp
qed

lemma retry_loop_exhausted:
  assumes "\<And>a s. \<exists>e. f a s = (Inl e, s)"
  shows "retry_loop r n (\<lambda>e. True) f s = (Inl RetryError, s, n + r)"
proof (induction r arbitrary: n)
  case 0
  then show ?case by simp
next
  case (Suc r)
  from assms obtain e where "f (Suc n) s = (Inl e, s)" by blast
  with Suc show ?case by simp
qed

subsection \<open>Embedding pruning\<close>

lemma message_ids_set: "message_ids stm = Inr ids \<Longrightarrow> set ids = message_id_set stm"
  by (induction stm arbitrary: ids)
     (auto simp: message_id_set_def List.map_filter_simps split: option.splits sum.splits)

lemma update_embeddings_pruned:
  "update_embeddings now ctx mid e = (None, ctx') \<Longrightarrow>
     dom (embeddings ctx') \<subseteq> message_id_set (short_term_memory ctx') \<and>
     short_term_memory ctx' = short_term_memory ctx"
  by (auto simp: update_embeddings_def Let_def dest: message_ids_set
           split: if_splits sum.splits)

lemma message_name_inj: "message_name i = message_name j \<longleftrightarrow> i = j"
  by (metis length_replicate list.inject message_name_def)

lemma numbered_id: "numbered_message i ''message_id'' = Some (message_name i)"
  by (simp add: numbered_message_def)

lemma message_id_set_numbered:
  "message_id_set (map numbered_message ns) = message_name ` set ns"
  by (induction ns) (auto simp: message_id_set_def List.map_filter_simps numbered_id)

lemma message_ids_numbered:
  "message_ids (map numbered_message ns) = Inr (map message_name ns)"
  by (induction ns) (auto simp: numbered_id)

lemma numbered_fields:
  "numbered_message k ''timestamp'' = Some ''2023-01-01T00:00:00''"
  "numbered_message k ''sender_id'' = Some ''user_1''"
  by (simp_all add: numbered_message_def)

lemma update_reply_metrics_numbered:
  assumes "length (short_term_memory ctx) > 1"
    and "\<forall>m \<in> set (short_term_memory ctx). \<exists>k. m = numbered_message k"
  shows "fst (update_reply_metrics epoch_parser ctx s \<lparr> seconds = 0, aware = False \<rparr>) = None"
proof -
  have "short_term_memory ctx ! (length (short_term_memory ctx) - 2) \<in> set (short_term_memory ctx)"
    using assms(1) by (intro nth_mem) simp
  then obtain k where "short_term_memory ctx ! (length (short_term_memory ctx) - 2) = numbered_message k"
    using assms(2) by blast
  then show ?thesis
    by (simp add: update_reply_metrics_def Let_def numbered_fields epoch_parser_def)
qed

lemma add_message_fst:
  assumes "has_required_fields m" and "m ''sender_id'' = Some s" and "m ''timestamp'' = Some t"
    and "f t = Some d"
  shows "fst (add_message f now ctx m) =
           (let stm1 = short_term_memory ctx @ [m];
                stm2 = (if length stm1 > MAX_SHORT_TERM_MESSAGES then tl stm1 else stm1);
                ctx2 = ctx\<lparr>short_term_memory := stm2,
                           group_dynamics := (group_dynamics ctx)\<lparr>participation_metrics :=
                              increment (participation_metrics (group_dynamics ctx)) s\<rparr>\<rparr>
            in if length stm2 > 1 then fst (update_reply_metrics f ctx2 s d) else None)"
  using assms
  by (auto simp: add_message_def Let_def split: prod.splits option.splits)

lemma add_message_numbered_ok:
  assumes "\<forall>m \<in> set (short_term_memory ctx). \<exists>k. m = numbered_message k"
  shows "fst (add_message epoch_parser now ctx (numbered_message i)) = None"
proof -
  let ?stm1 = "short_term_memory ctx @ [numbered_message i]"
  let ?stm2 = "if length ?stm1 > MAX_SHORT_TERM_MESSAGES then tl ?stm1 else ?stm1"
  let ?gd = "(group_dynamics ctx)\<lparr>participation_metrics :=
                increment (participation_metrics (group_dynamics ctx)) ''user_1''\<rparr>"
  let ?ctx2 = "ctx\<lparr>short_term_memory := ?stm2, group_dynamics := ?gd\<rparr>"
  have tl_sub: "m \<in> set (tl xs) \<Longrightarrow> m \<in> set xs" for m :: message and xs
    by (cases xs) auto
  have all1: "\<forall>m \<in> set ?stm1. \<exists>k. m = numbered_message k"
    using assms by auto
  then have "\<forall>m \<in> set ?stm2. \<exists>k. m = numbered_message k"
    using tl_sub [of _ ?stm1] by (cases "length ?stm1 > MAX_SHORT_TERM_MESSAGES") auto
  then have all2: "\<forall>m \<in> set (short_term_memory ?ctx2). \<exists>k. m = numbered_message k"
    by simp
  have urm: "fst (update_reply_metrics epoch_parser ?ctx2 ''user_1'' \<lparr> seconds = 0, aware = False \<rparr>) = None"
    if "length (short_term_memory ?ctx2) > 1"
    using that all2 by (rule update_reply_metrics_numbered)
  have "fst (add_message epoch_parser now ctx (numbered_message i)) =
          (if length ?stm2 > 1
           then fst (update_reply_metrics epoch_parser ?ctx2 ''user_1'' \<lparr> seconds = 0, aware = False \<rparr>)
           else None)"
    by (subst add_message_fst [OF numbered_required numbered_fields(2) numbered_fields(1),
                               where d = "\<lparr> seconds = 0, aware = False \<rparr>"])
       (simp_all add: epoch_parser_def Let_def)
  then show ?thesis using urm by (simp split: if_splits)
qed

lemma update_embeddings_stm:
  "short_term_memory (snd (update_embeddings now ctx mid e)) = short_term_memory ctx"
  by (simp add: update_embeddings_def Let_def split: sum.splits)

lemma update_embeddings_numbered:
  assumes "short_term_memory ctx = map numbered_message ns" and "length e = 1536"
  shows "fst (update_embeddings now ctx mid e) = None"
    and "embeddings (snd (update_embeddings now ctx mid e)) =
           (\<lambda>k. if k \<in> message_name ` set ns then ((embeddings ctx)(mid \<mapsto> e)) k else None)"
  using assms
  by (simp_all add: update_embeddings_def Let_def EMBEDDING_DIMENSION_def message_ids_numbered
               cong: if_cong)

lemma filled_context_Suc: "filled_context (Suc n) = add_and_embed (filled_context n) n"
  by (simp add: filled_context_def)

lemma filled_context_state:
  "n \<le> 50 \<Longrightarrow>
     short_term_memory (filled_context n) = map numbered_message [0..<n] \<and>
     embeddings (filled_context n) =
       (\<lambda>k. if k \<in> message_name ` {0..<n} then Some zero_embedding else None)"
proof (induction n)
  case 0
  then show ?case by (simp add: filled_context_def Context_init_def)
next
  case (Suc n)
  let ?c = "filled_context n"
  let ?c1 = "snd (add_message epoch_parser 0 ?c (numbered_message n))"
  have stm: "short_term_memory ?c = map numbered_message [0..<n]"
    and emb: "embeddings ?c = (\<lambda>k. if k \<in> message_name ` {0..<n} then Some zero_embedding else None)"
    using Suc by simp_all
  have stm1: "short_term_memory ?c1 = map numbered_message [0..<Suc n]"
    using Suc.prems
    by (simp add: add_message_stm numbered_required stm MAX_SHORT_TERM_MESSAGES_def)
  have emb1: "embeddings ?c1 = embeddings ?c"
    by (rule add_message_embeddings)
  have len: "length zero_embedding = 1536"
    by (simp add: zero_embedding_def)
  have stm2: "short_term_memory (filled_context (Suc n)) = map numbered_message [0..<Suc n]"
    unfolding filled_context_Suc add_and_embed_def update_embeddings_stm by (rule stm1)
  have "embeddings (filled_context (Suc n)) =
          (\<lambda>k. if k \<in> message_name ` set [0..<Suc n]
               then ((embeddings ?c1)(message_name n \<mapsto> zero_embedding)) k else None)"
    unfolding filled_context_Suc add_and_embed_def
    by (rule update_embeddings_numbered(2) [OF stm1 len])
  also have "\<dots> = (\<lambda>k. if k \<in> message_name ` {0..<Suc n} then Some zero_embedding else None)"
    unfolding emb1 emb by (auto simp: fun_eq_iff less_Suc_eq)
  finally show ?case using stm2 by simp
qed

lemma tl_map_upt: "0 < n \<Longrightarrow> tl (map f [0..<n] @ [f n]) = map f [1..<Suc n]"
  by (simp add: upt_conv_Cons [of 0 n])

lemma add_to_filled_context:
  "fst (add_message epoch_parser 0 (filled_context 50) (numbered_message 50)) = None \<and>
   short_term_memory (snd (add_message epoch_parser 0 (filled_context 50) (numbered_message 50)))
     = map numbered_message [1..<51] \<and>
   \<not> dom (embeddings (snd (add_message epoch_parser 0 (filled_context 50) (numbered_message 50))))
       \<subseteq> message_id_set (short_term_memory
            (snd (add_message epoch_parser 0 (filled_context 50) (numbered_message 50))))"
proof -
  let ?c = "filled_context 50"
  let ?c' = "snd (add_message epoch_parser 0 ?c (numbered_message 50))"
  have st: "short_term_memory ?c = map numbered_message [0..<50]"
    and emb: "embeddings ?c = (\<lambda>k. if k \<in> message_name ` {0..<50} then Some zero_embedding else None)"
    using filled_context_state [of 50] by simp_all
  have ok: "fst (add_message epoch_parser 0 ?c (numbered_message 50)) = None"
    by (rule add_message_numbered_ok) (auto simp: st)
  have "short_term_memory ?c' = tl (map numbered_message [0..<50] @ [numbered_message 50])"
    by (simp add: add_message_stm numbered_required st MAX_SHORT_TERM_MESSAGES_def)
  also have "\<dots> = map numbered_message [1..<51]"
    using tl_map_upt [of 50 numbered_message] by simp
  finally have st': "short_term_memory ?c' = map numbered_message [1..<51]" .
  have "message_name 0 \<in> dom (embeddings ?c')"
    by (simp add: add_message_embeddings emb dom_def)
  moreover have "message_name 0 \<notin> message_id_set (short_term_memory ?c')"
    by (simp add: st' message_id_set_numbered message_name_inj image_iff)
  ultimately show ?thesis using ok st' by blast
qed

text \<open>
  C9, as stated, fails. \<open>Context.add_message\<close> evicts and leaves the embeddings alone.
  In the context reached by adding and embedding the messages 0 to 49, adding message 50
  returns normally and drops message 0 from short-term memory, while the embedding of
  message 0 is still a key of \<open>embeddings\<close>.
\<close>

theorem eviction_without_pruning:
  "fst (add_message epoch_parser 0 (filled_context 50) (numbered_message 50)) = None \<and>
   short_term_memory (snd (add_message epoch_parser 0 (filled_context 50) (numbered_message 50)))
     = map numbered_message [1..<51] \<and>
   \<not> dom (embeddings (snd (add_message epoch_parser 0 (filled_context 50) (numbered_message 50))))
       \<subseteq> message_id_set (short_term_memory
            (snd (add_message epoch_parser 0 (filled_context 50) (numbered_message 50))))"
  by (rule add_to_filled_context)

text \<open>
  C9, amended. Pruning is part of \<open>Context.update_embeddings\<close>: whenever that call
  returns normally, every key of \<open>embeddings\<close> is the id of a message in short-term
  memory, whether or not a message was evicted before.
\<close>

theorem embeddings_pruned_after_update:
  "update_embeddings now ctx message_id e = (None, ctx') \<longrightarrow>
     dom (embeddings ctx') \<subseteq> message_id_set (short_term_memory ctx')"
  using update_embeddings_pruned by blast

lemma zero_embedding_length: "length zero_embedding = 1536"
  by (simp add: zero_embedding_def)

text \<open>
  C9, amended, in the state of the counterexample: message 50 has been added to the
  context of the first 50 messages and message 0 evicted. The embedding update for
  message 50 returns normally, and afterwards the keys are ids of messages in short-term
  memory; the embedding of message 0 is gone.
\<close>

theorem embeddings_pruned_after_update_witness:
  "update_embeddings 0 (snd (add_message epoch_parser 0 (filled_context 50) (numbered_message 50)))
      (message_name 50) zero_embedding = (None, filled_context 51) \<and>
   dom (embeddings (filled_context 51)) \<subseteq> message_id_set (short_term_memory (filled_context 51)) \<and>
   embeddings (filled_context 51) (message_name 0) = None \<and>
   embeddings (filled_context 51) (message_name 50) = Some zero_embedding"
proof -
  let ?c = "snd (add_message epoch_parser 0 (filled_context 50) (numbered_message 50))"
  have st: "short_term_memory ?c = map numbered_message [1..<51]"
    using add_to_filled_context by blast
  have "fst (update_embeddings 0 ?c (message_name 50) zero_embedding) = None"
    by (rule update_embeddings_numbered(1) [OF st zero_embedding_length])
  moreover have f: "filled_context 51 = snd (update_embeddings 0 ?c (message_name 50) zero_embedding)"
    using filled_context_Suc [of 50] by (simp add: add_and_embed_def)
  ultimately have u: "update_embeddings 0 ?c (message_name 50) zero_embedding = (None, filled_context 51)"
    by (simp add: prod_eq_iff)
  have e: "embeddings (filled_context 51) =
             (\<lambda>k. if k \<in> message_name ` set [1..<51]
                  then ((embeddings ?c)(message_name 50 \<mapsto> zero_embedding)) k else None)"
    unfolding f by (rule update_embeddings_numbered(2) [OF st zero_embedding_length])
  have e0: "embeddings (filled_context 51) (message_name 0) = None"
    by (simp add: e message_name_inj image_iff)
  have e50: "embeddings (filled_context 51) (message_name 50) = Some zero_embedding"
    by (simp add: e message_name_inj image_iff)
  from embeddings_pruned_after_update
         [of 0 ?c "message_name 50" zero_embedding "filled_context 51"]
  show ?thesis using u e0 e50 by simp
qed

subsection \<open>Loading the context manager\<close>

text \<open>
  \<open>retry_if_exception_type\<close> is not a parameter of the retrying object, so the decorator
  of \<open>add_message_to_context\<close> raises TypeError while the class body runs. The
  decorator of \<open>get_relevant_context\<close> is the usual one: three attempts, every exception
  retried.
\<close>

lemma add_message_to_context_decorator_raises:
  "add_message_to_context_decorator = Inl TypeError"
  by (simp add: add_message_to_context_decorator_def tenacity_retry_def retrying_parameters_def)

lemma get_relevant_context_decorator_value:
  "get_relevant_context_decorator = Inr \<lparr> max_attempts = 3, retry_predicate = (\<lambda>e. True) \<rparr>"
  by (simp add: get_relevant_context_decorator_def tenacity_retry_def retrying_parameters_def
                MAX_RETRIES_def)

lemma ContextManager_class_body_raises: "ContextManager_class_body = Inl TypeError"
  by (simp add: ContextManager_class_body_def add_message_to_context_decorator_raises)

subsection \<open>Retrieval of relevant context\<close>

text \<open>
  The result of \<open>search_similar\<close> is a list, or the RuntimeError of a store that is not
  connected; either way the \<open>await\<close> in front of it leaves an exception. So one attempt
  of \<open>get_relevant_context\<close> raises whatever its arguments and the outside world are,
  before it has looked at the context.
\<close>

lemma search_similar_connected:
  "connected vs \<Longrightarrow> search_similar vs q cid limit threshold = Inr []"
  by (simp add: search_similar_def search_similar_try_def Context_EMBEDDING_DIMENSION_def)

lemma get_relevant_context_once_raises:
  "\<exists>e. get_relevant_context_once env mgr cid query opts = (Inl e, mgr)"
  by (auto simp: get_relevant_context_once_def await_value_def Let_def
           split: sum.splits option.splits)

text \<open>
  The join after the search, which no attempt reaches: for a short-term memory whose
  messages all carry an id, as \<open>add_message\<close> keeps it, each hit is paired with the
  first message of that id and keeps its score, and a hit without such a message is
  dropped.
\<close>

lemma find_message_first:
  "list_all (\<lambda>m. m ''message_id'' \<noteq> None) stm \<Longrightarrow>
   find_message stm i = Inr (find (\<lambda>m. m ''message_id'' = Some i) stm)"
  by (induction stm) auto

lemma join_messages_characterised:
  assumes "list_all (\<lambda>m. m ''message_id'' \<noteq> None) stm"
  shows "join_messages stm hits =
           Inr (List.map_filter
                  (\<lambda>h. map_option (\<lambda>m. \<lparr> rel_message = m, relevance_score = hit_score h \<rparr>)
                                    (find (\<lambda>m. m ''message_id'' = Some (hit_message_id h)) stm))
                  hits)"
  by (induction hits)
     (auto simp: find_message_first [OF assms] List.map_filter_simps split: option.splits)

text \<open>
  C5 fails on the code: \<open>get_relevant_context\<close> returns no list, for any conversation,
  query and options, so also not the empty list of the scenario with threshold 0.9. A
  caller that imports the module gets the TypeError of the class body and no attempt is
  made. The method taken by itself, under the decorator the source gives it, raises on
  each of its three attempts and ends in \<open>RetryError\<close>, the manager unchanged.
\<close>

theorem relevant_context_never_returned:
  "get_relevant_context envs mgr cid query opts = (Inl TypeError, mgr, 0) \<and>
   (\<exists>r. get_relevant_context_decorator = Inr r \<and>
        retry_call r (\<lambda>attempt m. get_relevant_context_once (envs attempt) m cid query opts) mgr
          = (Inl RetryError, mgr, 3))"
proof -
  have "retry_loop 3 0 (\<lambda>e. True)
          (\<lambda>attempt m. get_relevant_context_once (envs attempt) m cid query opts) mgr
        = (Inl RetryError, mgr, 0 + 3)"
    by (rule retry_loop_exhausted) (rule get_relevant_context_once_raises)
  then show ?thesis
    by (simp add: get_relevant_context_def ContextManager_class_body_raises
                  get_relevant_context_decorator_value retry_call_def)
qed

subsection \<open>Rejected messages\<close>

text \<open>
  \<open>Context.add_message\<close> rejects a message that lacks a required field with ValueError
  and leaves the context as it was.
\<close>

lemma add_message_rejects:
  "\<not> has_required_fields message \<Longrightarrow> add_message f now ctx message = (Some ValueError, ctx)"
  by (simp add: add_message_def)

lemma get_or_create_put:
  "get_or_create_context now mgr cid = (ctx, mgr1) \<Longrightarrow> put_context mgr1 cid ctx = mgr1"
  by (auto simp: get_or_create_context_def put_context_def fun_upd_idem split: option.splits)

lemma get_or_create_again:
  "snd (get_or_create_context now' (snd (get_or_create_context now mgr cid)) cid)
     = snd (get_or_create_context now mgr cid)"
  by (simp add: get_or_create_context_def split: option.splits)

lemma add_invalid_message_once:
  assumes "\<not> has_required_fields message"
  shows "add_message_to_context_once env mgr cid message batch_mode
           = (Inl ValueError, snd (get_or_create_context (env_now env) mgr cid))"
proof -
  obtain ctx mgr1 where g: "get_or_create_context (env_now env) mgr cid = (ctx, mgr1)"
    by (cases "get_or_create_context (env_now env) mgr cid")
  show ?thesis
    using get_or_create_put [OF g]
    by (simp add: add_message_to_context_once_def g add_message_rejects [OF assms])
qed

text \<open>
  What the body of \<open>add_message_to_context\<close> does with such a message depends on the
  predicate of the decorator in front of it. Under tenacity's default, which a decorator
  without the unknown keyword has, the ValueError is retried and the call ends in
  \<open>RetryError\<close> after three attempts. Under \<open>retry=retry_if_exception_type(...)\<close> with the
  two classes of the source, the form vector_store.py uses, the ValueError is passed on
  after one attempt.
\<close>

lemma invalid_message_default_predicate:
  assumes "\<not> has_required_fields message"
  shows "\<exists>r. tenacity_retry MAX_RETRIES [(''wait'', Wait_exponential RETRY_DELAY_SECONDS)] = Inr r \<and>
           retry_call r
             (\<lambda>attempt m. add_message_to_context_once (envs attempt) m cid message batch_mode) mgr
           = (Inl RetryError, snd (get_or_create_context (env_now (envs 1)) mgr cid), 3)"
  by (simp add: tenacity_retry_def retrying_parameters_def MAX_RETRIES_def retry_call_def
                numeral_3_eq_3 add_invalid_message_once [OF assms] get_or_create_again)

lemma invalid_message_named_predicate:
  assumes "\<not> has_required_fields message"
  shows "\<exists>r. tenacity_retry MAX_RETRIES
               [(''wait'', Wait_exponential RETRY_DELAY_SECONDS),
                (''retry'', Retry_if_exception_type [ConnectionError, TimeoutError])] = Inr r \<and>
           retry_call r
             (\<lambda>attempt m. add_message_to_context_once (envs attempt) m cid message batch_mode) mgr
           = (Inl ValueError, snd (get_or_create_context (env_now (envs 1)) mgr cid), 1)"
  by (simp add: tenacity_retry_def retrying_parameters_def MAX_RETRIES_def retry_call_def
                numeral_3_eq_3 add_invalid_message_once [OF assms])

text \<open>
  With a valid message the body gets as far as the \<open>await\<close> in front of
  \<open>store_embedding\<close> and raises there, or earlier: it never returns normally, and
  \<open>update_embeddings\<close> is not reached.
\<close>

lemma add_message_to_context_once_raises:
  "\<exists>e mgr'. add_message_to_context_once env mgr cid message batch_mode = (Inl e, mgr')"
  by (auto simp: add_message_to_context_once_def await_value_def Let_def
           split: prod.splits option.splits sum.splits)

text \<open>
  C6 fails on the code. The claim has \<open>add_message_to_context\<close> raise the validation
  error of \<open>Context.add_message\<close> after one attempt. For every message, with or without
  the required fields, a caller that imports the module gets the TypeError of the class
  body instead; the method is never entered and makes no attempt.
\<close>

theorem add_message_to_context_not_callable:
  "add_message_to_context envs mgr cid message batch_mode = (Inl TypeError, mgr, 0)"
  by (simp add: add_message_to_context_def ContextManager_class_body_raises)

subsection \<open>Preference history\<close>

lemma update_preference_step:
  assumes "model_ok L m" and "0 < L"
  shows "\<exists>m'. PreferenceModel_update_preference L (call_now c) m (call_data c) (call_confidence c) (call_force c) = Inr m' \<and>
           model_ok L m' \<and> version m' = version m + 1 \<and>
           history m' = (if length (history m) = L then tl (history m) else history m) @ [snapshot m c]"
proof -
  have e: "PreferenceHistoryEntry_new (call_now c) (preference_data m) (confidence_score m) (version m)
             = Inr (snapshot m c)"
    using assms(1)
    by (simp add: PreferenceHistoryEntry_new_def model_ok_def snapshot_def
                  MIN_CONFIDENCE_SCORE_def MAX_CONFIDENCE_SCORE_def)
  have ne: "\<not> (length (history m) \<ge> L \<and> history m = [])"
    using assms(2) by auto
  have le: "length (history m) \<ge> L \<longleftrightarrow> length (history m) = L"
    using assms(1) by (auto simp: model_ok_def)
  show ?thesis
    using assms ne
    by (cases "call_confidence c")
       (auto simp: PreferenceModel_update_preference_def e Let_def le model_ok_def
                   MIN_CONFIDENCE_SCORE_def MAX_CONFIDENCE_SCORE_def)
qed

lemma update_preferences_run:
  assumes "model_ok L m" and "0 < L"
  shows "\<exists>m'. update_preferences L m calls = Inr m' \<and>
           version m' = version m + int (length calls) \<and>
           length (states_before L m calls) = length calls \<and>
           map version (states_before L m calls) = map (\<lambda>i. version m + int i) [0..<length calls] \<and>
           history m' = drop (length (history m) + length calls - L)
                          (history m @ map2 snapshot (states_before L m calls) calls)"
  using assms(1)
proof (induction calls arbitrary: m)
  case Nil
  then show ?case by (simp add: model_ok_def)
next
  case (Cons c calls)
  from update_preference_step [OF Cons.prems assms(2), of c] obtain m1 where
    s: "PreferenceModel_update_preference L (call_now c) m (call_data c) (call_confidence c) (call_force c) = Inr m1"
    and ok1: "model_ok L m1" and v1: "version m1 = version m + 1"
    and h1: "history m1 = (if length (history m) = L then tl (history m) else history m) @ [snapshot m c]"
    by blast
  from Cons.IH [OF ok1] obtain m' where
    r: "update_preferences L m1 calls = Inr m'"
    and v: "version m' = version m1 + int (length calls)"
    and l: "length (states_before L m1 calls) = length calls"
    and vs: "map version (states_before L m1 calls) = map (\<lambda>i. version m1 + int i) [0..<length calls]"
    and h: "history m' = drop (length (history m1) + length calls - L)
                          (history m1 @ map2 snapshot (states_before L m1 calls) calls)"
    by blast
  let ?rest = "map2 snapshot (states_before L m1 calls) calls"
  have hist: "history m' = drop (length (history m) + length (c # calls) - L)
                          (history m @ snapshot m c # ?rest)"
  proof (cases "length (history m) = L")
    case True
    then obtain x xs where xs: "history m = x # xs"
      using assms(2) by (cases "history m") auto
    with True have lx: "Suc (length xs) = L" by simp
    have "history m1 = xs @ [snapshot m c]" using h1 True xs by simp
    then show ?thesis using h lx xs by (simp add: Suc_diff_le)
  next
    case False
    then have lt: "length (history m) < L" using Cons.prems by (simp add: model_ok_def)
    have "history m1 = history m @ [snapshot m c]" using h1 False by simp
    then show ?thesis using h by simp
  qed
  have vs': "map version (states_before L m (c # calls)) =
               map (\<lambda>i. version m + int i) [0..<length (c # calls)]"
  proof -
    have "[0..<Suc (length calls)] = 0 # map Suc [0..<length calls]"
      by (simp add: upt_conv_Cons map_Suc_upt del: upt_Suc)
    then show ?thesis using vs v1 s by (simp add: comp_def del: upt_Suc)
  qed
  show ?case
    using r v v1 l hist vs' s by (simp del: upt_Suc)
qed

text \<open>
  C2. A preference model with version 0 and no history (a new one) receives K calls of
  \<open>update_preference\<close>, K above the history limit L. Every call returns; afterwards the
  history has L entries and the version is K; the model had version i - 1 before the
  i-th call; and the history is the last L of the K snapshots, the i-th snapshot holding
  the data, confidence and version of the model as it was immediately before the i-th
  call.
\<close>

theorem history_bound_and_order:
  assumes "version m = 0" and "history m = []"
    and "0 \<le> confidence_score m" and "confidence_score m \<le> 1"
    and "0 < L" and "L < length calls"
  shows "\<exists>m'. update_preferences L m calls = Inr m' \<and>
           length (history m') = L \<and>
           version m' = int (length calls) \<and>
           map version (states_before L m calls) = map int [0..<length calls] \<and>
           history m' = drop (length calls - L) (map2 snapshot (states_before L m calls) calls)"
proof -
  have ok: "model_ok L m" using assms by (simp add: model_ok_def)
  from update_preferences_run [OF ok assms(5), of calls] obtain m' where
    r: "update_preferences L m calls = Inr m'"
    and v: "version m' = version m + int (length calls)"
    and l: "length (states_before L m calls) = length calls"
    and vs: "map version (states_before L m calls) = map (\<lambda>i. version m + int i) [0..<length calls]"
    and h: "history m' = drop (length (history m) + length calls - L)
                          (history m @ map2 snapshot (states_before L m calls) calls)"
    by blast
  have "length (history m') = L" using h l assms(2,6) by simp
  then show ?thesis using r v vs h assms(1,2) by simp
qed

text \<open>C2 with limit 2 and three calls: the snapshots of versions 1 and 2 remain.\<close>

lemma chat_model_new: "PreferenceModel_new 0 test_user ''chat'' = Inr chat_model"
  by (simp add: PreferenceModel_new_def PREFERENCE_TYPES_def chat_model_def)

lemma three_calls_run:
  "update_preferences 2 chat_model three_calls =
     Inr \<lparr> pm_user_id = test_user, pm_preference_type = ''chat'',
           preference_data = [(''theme'', PStr ''dark'')],
           history = [\<lparr> phe_timestamp = 2, phe_data = [(''theme'', PStr ''dark'')],
                        phe_confidence_score = 0.5, phe_version = 1 \<rparr>,
                      \<lparr> phe_timestamp = 3, phe_data = [(''theme'', PStr ''light'')],
                        phe_confidence_score = 0.9, phe_version = 2 \<rparr>],
           confidence_score = 0.9, pm_created_at = 0, pm_last_updated = 3, version = 3 \<rparr>"
  by (simp add: three_calls_def theme_call_def chat_model_def PreferenceModel_update_preference_def
        PreferenceHistoryEntry_new_def MIN_CONFIDENCE_SCORE_def MAX_CONFIDENCE_SCORE_def Let_def)

theorem history_bound_and_order_witness:
  "PreferenceModel_new 0 test_user ''chat'' = Inr chat_model \<and>
   version chat_model = 0 \<and> history chat_model = [] \<and>
   0 \<le> confidence_score chat_model \<and> confidence_score chat_model \<le> 1 \<and>
   (0::nat) < 2 \<and> 2 < length three_calls \<and>
   (\<exists>m'. update_preferences 2 chat_model three_calls = Inr m' \<and>
         length (history m') = 2 \<and> version m' = 3 \<and>
         map phe_version (history m') = [1, 2] \<and>
         map version (states_before 2 chat_model three_calls) = map int [0..<length three_calls] \<and>
         history m' = drop (length three_calls - 2)
                        (map2 snapshot (states_before 2 chat_model three_calls) three_calls))"
proof -
  have h: "version chat_model = 0" "history chat_model = []"
    "0 \<le> confidence_score chat_model" "confidence_score chat_model \<le> 1"
    by (simp_all add: chat_model_def)
  have l: "(0::nat) < 2" "2 < length three_calls"
    by (simp_all add: three_calls_def)
  from history_bound_and_order [OF h l] obtain m' where
    m': "update_preferences 2 chat_model three_calls = Inr m'"
      "length (history m') = 2" "version m' = int (length three_calls)"
      "map version (states_before 2 chat_model three_calls) = map int [0..<length three_calls]"
      "history m' = drop (length three_calls - 2)
                        (map2 snapshot (states_before 2 chat_model three_calls) three_calls)"
    by blast
  have "map phe_version (history m') = [1, 2]"
    using m'(1) unfolding three_calls_run by auto
  moreover have "version m' = 3" using m'(3) by (simp add: three_calls_def)
  ultimately show ?thesis using chat_model_new h l m'
    by (intro conjI exI [of _ m']) simp_all
qed

subsection \<open>User profile updates\<close>

lemma supported_not_preference_type:
  "t \<in> set SUPPORTED_PREFERENCE_TYPES \<Longrightarrow> t \<notin> set PREFERENCE_TYPES"
  by (auto simp: SUPPORTED_PREFERENCE_TYPES_def PREFERENCE_TYPES_def)

text \<open>
  The supported types of the settings and the types the preference model accepts have no
  member in common, so every call of \<open>UserProfile.update_preference\<close> ends in an
  exception before the profile is touched: ValueError for an unsupported type,
  ValidationError from the construction of the preference model otherwise.
\<close>

lemma update_preference_raises:
  "UserProfile_update_preference L now self t d c cd =
     (if t \<in> set SUPPORTED_PREFERENCE_TYPES then (Inl ValidationError, self)
      else (Inl ValueError, self))"
  by (simp add: UserProfile_update_preference_def PreferenceModel_new_def
                supported_not_preference_type)

lemma UserProfile_init_entries:
  assumes "t \<in> set SUPPORTED_PREFERENCE_TYPES"
  shows "pattern_metrics (UserProfile_init now uid) t =
           Some \<lparr> last_analysis = now, sample_count = 0, pattern_strength = 0 \<rparr>"
    and "interaction_history (UserProfile_init now uid) t = Some []"
    and "confidence_scores (UserProfile_init now uid) t = Some 0"
    and "learning_patterns (UserProfile_init now uid) t =
           Some [(''consistency_score'', PNum 0), (''temporal_patterns'', PDict []),
                 (''preference_stability'', PNum 0)]"
  using assms
  by (auto simp: UserProfile_init_def UserProfile_new_def UserProfile_fields_def
                 SUPPORTED_PREFERENCE_TYPES_def init_preference_type_def)

text \<open>
  Past the construction of the preference model nothing would be recorded either: the
  \<open>await\<close> in front of \<open>PreferenceModel.update_preference\<close> raises before the history is
  appended to. The pattern score computed on the way lies in [0, 1], so 0.3 times a
  confidence in [0, 1] plus 0.3 times the score is at most 0.6.
\<close>

lemma update_preference_body_raises:
  "\<exists>e. update_preference_body L now self pm t d c cd = (Inl e, self)"
  by (auto simp: update_preference_body_def await_value_def Let_def split: sum.splits)

lemma pattern_consistency_bounds:
  "calculate_pattern_consistency self t d = Inr p \<Longrightarrow> 0 \<le> p \<and> p \<le> 1"
proof -
  assume a: "calculate_pattern_consistency self t d = Inr p"
  then obtain entries where e: "interaction_history self t = Some entries"
    by (auto simp: calculate_pattern_consistency_def split: option.splits)
  show ?thesis
  proof (cases "entries = []")
    case True
    with a e show ?thesis by (simp add: calculate_pattern_consistency_def)
  next
    case False
    let ?r = "drop (length entries - 5) entries"
    let ?same = "\<lambda>entry. py_eq (PDict (ie_data entry)) (PDict d)"
    have pos: "0 < length ?r" using False by (cases entries) auto
    have "length (filter ?same ?r) \<le> length ?r"
      by (rule length_filter_le)
    then have "real (length (filter ?same ?r)) / real (length ?r) \<le> 1"
      using pos by (simp add: divide_le_eq_1)
    moreover have "0 \<le> real (length (filter ?same ?r)) / real (length ?r)"
      by simp
    ultimately show ?thesis using a e False
      by (auto simp: calculate_pattern_consistency_def Let_def)
  qed
qed

lemma weighted_confidence_bound:
  fixes c p :: real
  assumes "0 \<le> c" "c \<le> 1" "0 \<le> p" "p \<le> 1"
  shows "c * 0.3 + p * 0.3 \<le> 0.6"
  using assms by simp



text \<open>
  C10 fails on the code. A call with the supported type \<open>content\<close> and confidence 0.8 on
  a new profile, where the claim has 0.3 * 0.8 + 0.3 * 0.5 = 0.39 recorded, raises
  ValidationError and records nothing: the confidence score of the type stays 0 and the
  interaction history stays empty.
\<close>

theorem update_preference_records_nothing:
  "UserProfile_update_preference 100 1 (UserProfile_init 0 test_user) ''content''
       [(''theme'', PStr ''dark'')] 0.8 None
     = (Inl ValidationError, UserProfile_init 0 test_user) \<and>
   confidence_scores (UserProfile_init 0 test_user) ''content'' = Some 0 \<and>
   interaction_history (UserProfile_init 0 test_user) ''content'' = Some []"
  by (simp add: update_preference_raises UserProfile_init_entries SUPPORTED_PREFERENCE_TYPES_def)


subsection \<open>Recommendation score\<close>

lemma feature_match_empty_preferences:
  "calculate_feature_match np_cosine (dict_get [] feature (PDict [])) item_feature = Fin 0"
  by (simp add: calculate_feature_match_def dict_get_def)

lemma np_mean_zeros: "xs \<noteq> [] \<Longrightarrow> np_mean (map (\<lambda>x. Fin 0) xs) = Fin 0"
  by (cases xs) (auto simp: comp_def)

text \<open>
  With empty preferences and an item that has at least one feature, the preference part
  is 0 and the diversity part is 1, so the score is 0.3 times the context relevance plus
  0.1, clamped: never 0 unless the context relevance raises.
\<close>

lemma empty_preferences_score:
  assumes "recommendation_item \<noteq> []"
    and "calculate_context_relevance fromisoformat context_data recommendation_item group_dyn = Inr c"
  shows "calculate_recommendation_score np_cosine fromisoformat [] context_data recommendation_item group_dyn
           = max 0 (min 1 (c * 0.3 + 0.1))"
proof -
  have "map fst recommendation_item \<noteq> []" using assms(1) by simp
  then have ps: "np_mean (map (\<lambda>feature.
                       calculate_feature_match np_cosine
                         (dict_get [] feature (PDict []))
                         (dict_get recommendation_item feature (PDict [])))
                     (map fst recommendation_item)) = Fin 0"
    unfolding feature_match_empty_preferences by (rule np_mean_zeros)
  have d: "calculate_diversity_score recommendation_item (dict_get [] ''history'' (PList [])) = Inr 1"
    by (simp add: calculate_diversity_score_def dict_get_def)
  show ?thesis
    unfolding calculate_recommendation_score_def ps d assms(2)
    by (simp add: SCORE_WEIGHTS_def)
qed

text \<open>
  C4 fails on the code. On the input of the repository's own test for empty preferences
  (the test item, the test context, empty group dynamics), where the test and the claim
  expect 0.0, the function returns 0.6 * 0 + 0.3 * 0.5 + 0.1 * 1 = 0.25, whatever the
  cosine similarity and the timestamp parser do: with no preferences, a context without
  the key \<open>timestamp\<close> and empty group dynamics, neither is called.
\<close>

theorem empty_preferences_score_not_zero:
  "calculate_recommendation_score np_cosine fromisoformat [] test_context test_item [] = 0.25"
proof -
  have c: "calculate_context_relevance fromisoformat test_context test_item [] = Inr 0.5"
    by (simp add: calculate_context_relevance_def test_context_def test_item_def dict_get_def)
  have "test_item \<noteq> []" by (simp add: test_item_def)
  from empty_preferences_score [OF this c] show ?thesis by simp
qed

subsection \<open>Preference predictions\<close>

text \<open>
  The loop over the temporal patterns, for any learning patterns whose buckets hold
  counts and whose stability is a number: one prediction for each bucket with at least
  five samples, in the order of the dict, with confidence the smaller of count / 5 and
  the stability.
\<close>

lemma predictions_loop_counts:
  assumes "list_all (\<lambda>kv. py_num (snd kv) \<noteq> None) buckets" and "py_num stability = Some s"
  shows "predictions_loop stability buckets = Inr (map (bucket_prediction s) (qualifying buckets))"
  using assms(1)
proof (induction buckets)
  case Nil
  then show ?case by (simp add: qualifying_def)
next
  case (Cons kv buckets)
  obtain k v where kv: "kv = (k, v)" by (cases kv)
  from Cons.prems kv obtain x where x: "py_num v = Some x" by auto
  have ih: "predictions_loop stability buckets = Inr (map (bucket_prediction s) (qualifying buckets))"
    using Cons by simp
  have q: "qualifying (kv # buckets) = (if x \<ge> 5 then kv # qualifying buckets else qualifying buckets)"
    by (simp add: qualifying_def kv bucket_count_def x)
  show ?case
    by (simp add: kv x assms(2) ih q [unfolded kv] MIN_SAMPLES_REQUIRED_def bucket_prediction_def
                  bucket_count_def)
qed

lemma generate_predictions_counts:
  assumes "list_all (\<lambda>kv. py_num (snd kv) \<noteq> None) (temporal_buckets lp)"
    and "py_num (dict_get lp ''preference_stability'' (PNum 0.5)) \<noteq> None"
    and "\<exists>b. dict_get lp ''temporal_patterns'' (PDict []) = PDict b"
  shows "generate_predictions lp =
           Inr (map (bucket_prediction (preference_stability lp)) (qualifying (temporal_buckets lp)))"
proof -
  from assms(3) obtain b where b: "dict_get lp ''temporal_patterns'' (PDict []) = PDict b" by blast
  from assms(2) obtain s where s: "py_num (dict_get lp ''preference_stability'' (PNum 0.5)) = Some s"
    by auto
  have tb: "temporal_buckets lp = b" by (simp add: temporal_buckets_def b)
  have st: "preference_stability lp = s" using s by (simp add: preference_stability_def bucket_count_def)
  show ?thesis
    using predictions_loop_counts [OF assms(1) [unfolded tb] s]
    by (simp add: generate_predictions_def b tb st)
qed

lemma flat_patterns_example:
  "generate_predictions flat_patterns =
     Inr [\<lparr> pattern_type = ''14'', pred_confidence = 0.8, predicted_value = PNum 6 \<rparr>]"
  by (simp add: generate_predictions_def flat_patterns_def dict_get_def MIN_SAMPLES_REQUIRED_def)

text \<open>
  On the patterns that the profile's own analysis stores, the items of
  \<open>temporal_patterns\<close> are the three histograms, and comparing a histogram with the
  threshold raises TypeError.
\<close>

lemma analysed_patterns_raise: "generate_predictions analysed_patterns = Inl TypeError"
  by (simp add: generate_predictions_def analysed_patterns_def dict_get_def)

text \<open>
  Neither happens in \<open>get_preference_predictions\<close>. The profile it reads is the one it
  has just constructed: for a supported type its temporal patterns are the empty dict,
  for any other type it has no learning patterns. Either way the response holds no
  prediction and the confidence 0; for a supported type it is put into the cache.
\<close>

lemma recompute_result:
  "recompute_predictions now now_iso svc uid ptype key =
     (Inr (prediction_response uid ptype [] 0 (ls_model_version svc) now_iso),
      if ptype \<in> set SUPPORTED_PREFERENCE_TYPES
      then svc\<lparr>ls_cache := cache_setex now (ls_cache svc) key PREDICTION_CACHE_TTL
                   (prediction_response uid ptype [] 0 (ls_model_version svc) now_iso)\<rparr>
      else svc)"
proof (cases "ptype \<in> set SUPPORTED_PREFERENCE_TYPES")
  case True
  then show ?thesis
    by (simp add: recompute_predictions_def UserProfile_init_entries Let_def
                  generate_predictions_def dict_get_def overall_confidence_def)
next
  case False
  then have "learning_patterns (UserProfile_init now uid) ptype = None"
    by (auto simp: UserProfile_init_def UserProfile_new_def UserProfile_fields_def
                   SUPPORTED_PREFERENCE_TYPES_def init_preference_type_def)
  with False show ?thesis by (simp add: recompute_predictions_def)
qed

text \<open>
  C7 fails on the code. On a cache miss \<open>get_preference_predictions\<close> returns, for
  every user and every type, a response with no prediction and overall confidence 0.0,
  whatever the user's temporal patterns are: they are not read.
\<close>

theorem predictions_always_empty:
  assumes "prediction_cache_miss now svc uid ptype"
  shows "fst (get_preference_predictions now now_iso svc uid ptype) =
           Inr (prediction_response uid ptype [] 0 (ls_model_version svc) now_iso)"
proof -
  have "get_preference_predictions now now_iso svc uid ptype =
          recompute_predictions now now_iso svc uid ptype
            (CACHE_KEY_PREFIX @ uuid_str uid @ '':'' @ ptype)"
    using assms
    by (auto simp: get_preference_predictions_def prediction_cache_miss_def Let_def
             split: option.splits sum.splits)
  then show ?thesis
    by (simp add: recompute_result)
qed

text \<open>C7 for the type \<open>content\<close> on a service with an empty cache.\<close>

theorem predictions_always_empty_witness:
  "prediction_cache_miss 0 new_learning_service test_user ''content'' \<and>
   fst (get_preference_predictions 0 ''2023-01-02T14:00:00'' new_learning_service test_user ''content'') =
     Inr (PDict [(''user_id'', PStr (uuid_str test_user)), (''preference_type'', PStr ''content''),
                 (''predictions'', PList []), (''confidence_score'', PNum 0),
                 (''model_version'', PStr ''1.0.0''), (''timestamp'', PStr ''2023-01-02T14:00:00'')])"
proof -
  have h: "prediction_cache_miss 0 new_learning_service test_user ''content''"
    by (simp add: prediction_cache_miss_def new_learning_service_def cache_get_def)
  from predictions_always_empty [OF h, of "''2023-01-02T14:00:00''"] h
  show ?thesis
    by (simp add: new_learning_service_def MODEL_VERSION_def prediction_response_def)
qed

subsection \<open>Recommendation cache\<close>

lemma update_cache_stats_miss:
  "rs_cache_stats svc ''misss'' = None \<Longrightarrow> update_cache_stats now svc ''miss'' = Inl KeyError"
  by (simp add: update_cache_stats_def)

text \<open>
  The part of \<open>get_recommendations\<close> after the cache check ends in an exception and
  leaves the cache as it was: the miss counter is looked up under \<open>misss\<close>, and past
  that the history is asked of the class.
\<close>

lemma generate_recommendations_never_returns:
  "\<exists>e svc'. generate_recommendations lib now now_iso svc uid rtype ctx = (Inl e, svc') \<and>
             rs_cache svc' = rs_cache svc"
  by (cases "update_cache_stats now svc ''miss''")
     (auto simp: generate_recommendations_def PreferenceModel_get_history_on_class_def
                 update_cache_stats_def Let_def split: option.splits if_splits)

text \<open>
  Without \<open>refresh_cache\<close> an attempt does not get that far: the cache is to be read
  through \<open>self._get_from_cache\<close>, which the class does not have.
\<close>

lemma cold_attempt:
  "get_recommendations_once lib now now_iso svc uid ''content'' ctx False
     = (Inl AttributeError, svc\<lparr>rs_error_count := rs_error_count svc + 1\<rparr>)"
  by (simp add: get_recommendations_once_def SUPPORTED_RECOMMENDATION_TYPES_def get_from_cache_def)

lemma cold_call:
  "get_recommendations lib clock svc uid ''content'' ctx False
     = (Inl RetryError, svc\<lparr>rs_error_count := rs_error_count svc + 3\<rparr>, 3)"
  by (simp add: get_recommendations_def CACHE_RETRY_ATTEMPTS_def numeral_3_eq_3 cold_attempt)

text \<open>
  C8 fails on the code. Two calls of \<open>get_recommendations\<close> for a user and the type
  \<open>content\<close> in succession, without \<open>refresh_cache\<close>, on a new service: the first call
  raises on each of its three attempts and ends with RetryError, having cached nothing;
  the second call finds the cache empty as well and ends the same way. It is not a cache
  hit and returns no result.
\<close>

theorem second_call_misses_again:
  "get_recommendations lib clock new_recommendation_service uid ''content'' None False
     = (Inl RetryError, new_recommendation_service\<lparr>rs_error_count := 3\<rparr>, 3) \<and>
   get_recommendations lib clock
       (new_recommendation_service\<lparr>rs_error_count := 3\<rparr>) uid ''content'' None False
     = (Inl RetryError, new_recommendation_service\<lparr>rs_error_count := 6\<rparr>, 3) \<and>
   rs_cache (new_recommendation_service\<lparr>rs_error_count := 3\<rparr>) = Map.empty"
  by (simp add: cold_call new_recommendation_service_def)


end
